theory Spec2Isabelle
  imports Complex_Main
begin

section \<open>Python values and exceptions\<close>

text \<open>
  The integration is Python running inside Home Assistant. Every exception the modelled
  code can raise is a value of \<open>error\<close>; a computation that may raise returns
  \<open>error + 'a\<close>, with \<open>Inl\<close> for the exception.
\<close>

datatype error =
    KeyError
  | ValueError
  | TypeError
  | AttributeError
  | RecursionError
  | ZoneInfoNotFoundError
  | OtherError

definition bind_err :: "error + 'a \<Rightarrow> ('a \<Rightarrow> error + 'b) \<Rightarrow> error + 'b" where
  "bind_err m f = (case m of Inl e \<Rightarrow> Inl e | Inr x \<Rightarrow> f x)"

text \<open>\<^verbatim>\<open>d[k]\<close> on a dict: KeyError when the key is missing.\<close>

definition dict_get :: "(string \<rightharpoonup> 'v) \<Rightarrow> string \<Rightarrow> error + 'v" where
  "dict_get d k = (case d k of None \<Rightarrow> Inl KeyError | Some v \<Rightarrow> Inr v)"

text \<open>
  Reading an instance attribute that was only annotated in the class body and never
  assigned raises AttributeError; \<open>None\<close> is the attribute that has not been set.
\<close>

definition getattr_state :: "'a option \<Rightarrow> error + 'a" where
  "getattr_state slot = (case slot of None \<Rightarrow> Inl AttributeError | Some v \<Rightarrow> Inr v)"

text \<open>
  Python's float type is a parameter of the model: \<open>'f\<close> is the type of floats,
  \<open>pyfloat\<close> is the builtin \<^verbatim>\<open>float(str)\<close> (it raises ValueError
  on a string that is no number), \<open>fmul\<close> and \<open>fadd\<close> are \<^verbatim>\<open>*\<close> and
  \<^verbatim>\<open>+\<close> on two floats. An operand that is \<^verbatim>\<open>None\<close> makes either
  operator raise TypeError.
\<close>

definition py_mul :: "('f \<Rightarrow> 'f \<Rightarrow> 'f) \<Rightarrow> 'f option \<Rightarrow> 'f option \<Rightarrow> error + 'f" where
  "py_mul fmul a b =
     (case a of None \<Rightarrow> Inl TypeError
      | Some x \<Rightarrow> (case b of None \<Rightarrow> Inl TypeError | Some y \<Rightarrow> Inr (fmul x y)))"

definition py_add :: "('f \<Rightarrow> 'f \<Rightarrow> 'f) \<Rightarrow> 'f option \<Rightarrow> 'f option \<Rightarrow> error + 'f" where
  "py_add fadd a b =
     (case a of None \<Rightarrow> Inl TypeError
      | Some x \<Rightarrow> (case b of None \<Rightarrow> Inl TypeError | Some y \<Rightarrow> Inr (fadd x y)))"

text \<open>
  \<^verbatim>\<open>a and b\<close> on booleans: the right operand is evaluated only when the left one
  is true, so an exception of the right operand is not raised after a false left one.
\<close>

definition py_and :: "error + bool \<Rightarrow> error + bool \<Rightarrow> error + bool" where
  "py_and a b = (case a of Inl e \<Rightarrow> Inl e | Inr x \<Rightarrow> if x then b else Inr False)"

section \<open>const.py and the host's constants\<close>

definition CONF_HIGH_CONSUMPTION_ENTITY :: string where
  "CONF_HIGH_CONSUMPTION_ENTITY = ''conf_high_consumption_entity''"

definition CONF_HIGH_TARIFF_ENTITY :: string where
  "CONF_HIGH_TARIFF_ENTITY = ''conf_high_tariff_entity''"

definition CONF_LOW_CONSUMPTION_ENTITY :: string where
  "CONF_LOW_CONSUMPTION_ENTITY = ''conf_low_consumption_entity''"

definition CONF_LOW_TARIFF_ENTITY :: string where
  "CONF_LOW_TARIFF_ENTITY = ''conf_low_tariff_entity''"

definition CONF_DEVICE_NAME :: string where
  "CONF_DEVICE_NAME = ''conf_device_name''"

text \<open>
  Modelled from the spec: \<^verbatim>\<open>STATE_UNAVAILABLE\<close> is imported from
  \<^verbatim>\<open>homeassistant.const\<close>, which is not part of the repository; the spec calls it
  the host-defined "unavailable" sentinel and its Scenario 5 gives the raw value
  \<^verbatim>\<open>"unavailable"\<close>.
\<close>

definition STATE_UNAVAILABLE :: string where
  "STATE_UNAVAILABLE = ''unavailable''"

section \<open>sensor.py: the tracked snapshot\<close>

text \<open>
  \<^verbatim>\<open>
  @dataclass
  class EnergyDeviceEntityState:
      available: bool
      state: float | None = None
  \<close>
\<close>

record 'f EnergyDeviceEntityState =
  available :: bool
  state :: "'f option"

text \<open>
  The host's \<^verbatim>\<open>State\<close> object, of which only \<^verbatim>\<open>.state\<close> is read. The
  host's state machine \<^verbatim>\<open>hass.states.get\<close> is a function from entity ids to
  \<^verbatim>\<open>State | None\<close>.
\<close>

record State =
  State_state :: "string option"

text \<open>
  \<^verbatim>\<open>
  state = self.hass.states.get(entity_id)
  if state is None or state.state is None or state.state == STATE_UNAVAILABLE:
      return EnergyDeviceEntityState(available=False)
  try:
      return EnergyDeviceEntityState(state=float(state.state), available=True)
  except ValueError:
      return EnergyDeviceEntityState(available=False)
  \<close>
  Only ValueError is caught; any other exception of \<^verbatim>\<open>float\<close> would leave the
  function.
\<close>

definition async_update_entity_state ::
  "(string \<Rightarrow> error + 'f) \<Rightarrow> (string \<Rightarrow> State option) \<Rightarrow> string
     \<Rightarrow> error + 'f EnergyDeviceEntityState" where
  "async_update_entity_state pyfloat hass_states entity_id =
     (case hass_states entity_id of
        None \<Rightarrow> Inr \<lparr>available = False, state = None\<rparr>
      | Some st \<Rightarrow>
          (case State_state st of
             None \<Rightarrow> Inr \<lparr>available = False, state = None\<rparr>
           | Some raw \<Rightarrow>
               if raw = STATE_UNAVAILABLE then Inr \<lparr>available = False, state = None\<rparr>
               else
                 (case pyfloat raw of
                    Inr v \<Rightarrow> Inr \<lparr>available = True, state = Some v\<rparr>
                  | Inl ValueError \<Rightarrow> Inr \<lparr>available = False, state = None\<rparr>
                  | Inl e \<Rightarrow> Inl e)))"

section \<open>sensor.py: the sensor object\<close>

text \<open>
  The fields of \<^verbatim>\<open>EnergyDeviceMonitorSensor\<close> that the update and the two
  properties use. \<open>entry_data\<close> and \<open>subentry_data\<close> are the dicts
  \<^verbatim>\<open>self._entry.data\<close> and \<^verbatim>\<open>self._subentry.data\<close>. The four snapshot
  attributes are annotated in the class body without a value, so each exists on the
  object only once it has been assigned: \<open>None\<close> is the attribute not set.
\<close>

record 'f EnergyDeviceMonitorSensor =
  entry_data :: "string \<rightharpoonup> string"
  subentry_data :: "string \<rightharpoonup> string"
  device_name :: string
  device_friendly_name :: string
  include_low_consumption :: bool
  include_high_consumption :: bool
  include_low_tariff :: bool
  include_high_tariff :: bool
  low_tariff_state :: "'f EnergyDeviceEntityState option"
  high_tariff_state :: "'f EnergyDeviceEntityState option"
  low_consumption_state :: "'f EnergyDeviceEntityState option"
  high_consumption_state :: "'f EnergyDeviceEntityState option"

datatype sensor_class =
    TotalDailyCostSensor
  | DailyLowCostSensor
  | DailyHighCostSensor
  | TotalDailyConsumptionSensor

text \<open>
  The list built in \<^verbatim>\<open>__init__\<close> and handed to
  \<^verbatim>\<open>async_track_state_change_event\<close>: the entity ids the sensor subscribes to.
\<close>

definition entities_to_track ::
  "(string \<rightharpoonup> string) \<Rightarrow> (string \<rightharpoonup> string) \<Rightarrow> bool \<Rightarrow> bool \<Rightarrow> bool \<Rightarrow> bool
     \<Rightarrow> error + string list" where
  "entities_to_track entry subentry incl_low_consumption incl_high_consumption
       incl_low_tariff incl_high_tariff =
     bind_err (if incl_low_tariff
               then bind_err (dict_get entry CONF_LOW_TARIFF_ENTITY) (\<lambda>e. Inr [e])
               else Inr []) (\<lambda>t1.
     bind_err (if incl_high_tariff
               then bind_err (dict_get entry CONF_HIGH_TARIFF_ENTITY) (\<lambda>e. Inr (t1 @ [e]))
               else Inr t1) (\<lambda>t2.
     bind_err (if incl_low_consumption
               then bind_err (dict_get subentry CONF_LOW_CONSUMPTION_ENTITY) (\<lambda>e. Inr (t2 @ [e]))
               else Inr t2) (\<lambda>t3.
     if incl_high_consumption
     then bind_err (dict_get subentry CONF_HIGH_CONSUMPTION_ENTITY) (\<lambda>e. Inr (t3 @ [e]))
     else Inr t3)))"

text \<open>
  \<^verbatim>\<open>EnergyDeviceMonitorSensor.__init__\<close>. It returns the new object and the
  subscription it registers with the host. The key \<^verbatim>\<open>CONF_DEVICE_FRIENDLY_NAME\<close>
  is imported from const.py but not defined there, so it is the parameter
  \<open>friendly_key\<close>. No snapshot attribute is assigned.
\<close>

definition EnergyDeviceMonitorSensor_init ::
  "string \<Rightarrow> (string \<rightharpoonup> string) \<Rightarrow> (string \<rightharpoonup> string) \<Rightarrow> bool \<Rightarrow> bool \<Rightarrow> bool \<Rightarrow> bool
     \<Rightarrow> error + ('f EnergyDeviceMonitorSensor \<times> string list)" where
  "EnergyDeviceMonitorSensor_init friendly_key entry subentry incl_low_consumption
       incl_high_consumption incl_low_tariff incl_high_tariff =
     bind_err (dict_get subentry CONF_DEVICE_NAME) (\<lambda>name.
     bind_err (dict_get subentry friendly_key) (\<lambda>friendly.
     bind_err (entities_to_track entry subentry incl_low_consumption incl_high_consumption
                 incl_low_tariff incl_high_tariff) (\<lambda>tracked.
     Inr (\<lparr>entry_data = entry, subentry_data = subentry,
           device_name = name, device_friendly_name = friendly,
           include_low_consumption = incl_low_consumption,
           include_high_consumption = incl_high_consumption,
           include_low_tariff = incl_low_tariff,
           include_high_tariff = incl_high_tariff,
           low_tariff_state = None, high_tariff_state = None,
           low_consumption_state = None, high_consumption_state = None\<rparr>,
          tracked))))"

text \<open>The four subclasses pass their flags to the base constructor.\<close>

definition sensor_init ::
  "string \<Rightarrow> sensor_class \<Rightarrow> (string \<rightharpoonup> string) \<Rightarrow> (string \<rightharpoonup> string)
     \<Rightarrow> error + ('f EnergyDeviceMonitorSensor \<times> string list)" where
  "sensor_init friendly_key cls entry subentry =
     (case cls of
        TotalDailyCostSensor \<Rightarrow>
          EnergyDeviceMonitorSensor_init friendly_key entry subentry True True True True
      | DailyLowCostSensor \<Rightarrow>
          EnergyDeviceMonitorSensor_init friendly_key entry subentry True False True False
      | DailyHighCostSensor \<Rightarrow>
          EnergyDeviceMonitorSensor_init friendly_key entry subentry False True False True
      | TotalDailyConsumptionSensor \<Rightarrow>
          EnergyDeviceMonitorSensor_init friendly_key entry subentry True True False False)"

text \<open>
  \<^verbatim>\<open>async_update\<close>: four guarded assignments, in the source's order. An exception
  (a missing configuration key, or one that \<^verbatim>\<open>_async_update_entity_state\<close> lets
  through) ends the update.
\<close>

definition async_update ::
  "(string \<Rightarrow> error + 'f) \<Rightarrow> (string \<Rightarrow> State option) \<Rightarrow> 'f EnergyDeviceMonitorSensor
     \<Rightarrow> error + 'f EnergyDeviceMonitorSensor" where
  "async_update pyfloat hass_states s =
     bind_err (if include_low_tariff s
               then bind_err (dict_get (entry_data s) CONF_LOW_TARIFF_ENTITY) (\<lambda>eid.
                    bind_err (async_update_entity_state pyfloat hass_states eid) (\<lambda>st.
                    Inr (s\<lparr>low_tariff_state := Some st\<rparr>)))
               else Inr s) (\<lambda>s1.
     bind_err (if include_high_tariff s1
               then bind_err (dict_get (entry_data s1) CONF_HIGH_TARIFF_ENTITY) (\<lambda>eid.
                    bind_err (async_update_entity_state pyfloat hass_states eid) (\<lambda>st.
                    Inr (s1\<lparr>high_tariff_state := Some st\<rparr>)))
               else Inr s1) (\<lambda>s2.
     bind_err (if include_low_consumption s2
               then bind_err (dict_get (subentry_data s2) CONF_LOW_CONSUMPTION_ENTITY) (\<lambda>eid.
                    bind_err (async_update_entity_state pyfloat hass_states eid) (\<lambda>st.
                    Inr (s2\<lparr>low_consumption_state := Some st\<rparr>)))
               else Inr s2) (\<lambda>s3.
     if include_high_consumption s3
     then bind_err (dict_get (subentry_data s3) CONF_HIGH_CONSUMPTION_ENTITY) (\<lambda>eid.
          bind_err (async_update_entity_state pyfloat hass_states eid) (\<lambda>st.
          Inr (s3\<lparr>high_consumption_state := Some st\<rparr>)))
     else Inr s3)))"

section \<open>sensor.py: the two properties of each sensor class\<close>

text \<open>\<^verbatim>\<open>self.<slot>.available\<close>: the attribute read, then the flag.\<close>

definition state_available :: "'f EnergyDeviceEntityState option \<Rightarrow> error + bool" where
  "state_available slot = bind_err (getattr_state slot) (\<lambda>st. Inr (available st))"

definition TotalDailyCostSensor_available :: "'f EnergyDeviceMonitorSensor \<Rightarrow> error + bool" where
  "TotalDailyCostSensor_available s =
     py_and (state_available (low_tariff_state s))
       (py_and (state_available (high_tariff_state s))
          (py_and (state_available (low_consumption_state s))
             (state_available (high_consumption_state s))))"

definition DailyLowCostSensor_available :: "'f EnergyDeviceMonitorSensor \<Rightarrow> error + bool" where
  "DailyLowCostSensor_available s =
     py_and (state_available (low_tariff_state s)) (state_available (low_consumption_state s))"

definition DailyHighCostSensor_available :: "'f EnergyDeviceMonitorSensor \<Rightarrow> error + bool" where
  "DailyHighCostSensor_available s =
     py_and (state_available (high_tariff_state s)) (state_available (high_consumption_state s))"

definition TotalDailyConsumptionSensor_available ::
  "'f EnergyDeviceMonitorSensor \<Rightarrow> error + bool" where
  "TotalDailyConsumptionSensor_available s =
     py_and (state_available (low_consumption_state s))
       (state_available (high_consumption_state s))"

text \<open>
  \<^verbatim>\<open>native_value\<close> has no availability test of its own: it reads the
  \<^verbatim>\<open>state\<close> of each snapshot and combines them, left to right.
\<close>

definition slot_product ::
  "('f \<Rightarrow> 'f \<Rightarrow> 'f) \<Rightarrow> 'f EnergyDeviceEntityState option \<Rightarrow> 'f EnergyDeviceEntityState option
     \<Rightarrow> error + 'f" where
  "slot_product fmul tariff consumption =
     bind_err (getattr_state tariff) (\<lambda>t.
     bind_err (getattr_state consumption) (\<lambda>c.
     py_mul fmul (state t) (state c)))"

definition TotalDailyCostSensor_native_value ::
  "('f \<Rightarrow> 'f \<Rightarrow> 'f) \<Rightarrow> ('f \<Rightarrow> 'f \<Rightarrow> 'f) \<Rightarrow> 'f EnergyDeviceMonitorSensor \<Rightarrow> error + 'f" where
  "TotalDailyCostSensor_native_value fmul fadd s =
     bind_err (slot_product fmul (low_tariff_state s) (low_consumption_state s)) (\<lambda>low.
     bind_err (slot_product fmul (high_tariff_state s) (high_consumption_state s)) (\<lambda>high.
     Inr (fadd low high)))"

definition DailyLowCostSensor_native_value ::
  "('f \<Rightarrow> 'f \<Rightarrow> 'f) \<Rightarrow> 'f EnergyDeviceMonitorSensor \<Rightarrow> error + 'f" where
  "DailyLowCostSensor_native_value fmul s =
     slot_product fmul (low_tariff_state s) (low_consumption_state s)"

definition DailyHighCostSensor_native_value ::
  "('f \<Rightarrow> 'f \<Rightarrow> 'f) \<Rightarrow> 'f EnergyDeviceMonitorSensor \<Rightarrow> error + 'f" where
  "DailyHighCostSensor_native_value fmul s =
     slot_product fmul (high_tariff_state s) (high_consumption_state s)"

definition TotalDailyConsumptionSensor_native_value ::
  "('f \<Rightarrow> 'f \<Rightarrow> 'f) \<Rightarrow> 'f EnergyDeviceMonitorSensor \<Rightarrow> error + 'f" where
  "TotalDailyConsumptionSensor_native_value fadd s =
     bind_err (getattr_state (low_consumption_state s)) (\<lambda>lc.
     bind_err (getattr_state (high_consumption_state s)) (\<lambda>hc.
     py_add fadd (state lc) (state hc)))"

text \<open>The property a sensor object answers with is the one of its class.\<close>

definition sensor_available :: "sensor_class \<Rightarrow> 'f EnergyDeviceMonitorSensor \<Rightarrow> error + bool" where
  "sensor_available cls s =
     (case cls of
        TotalDailyCostSensor \<Rightarrow> TotalDailyCostSensor_available s
      | DailyLowCostSensor \<Rightarrow> DailyLowCostSensor_available s
      | DailyHighCostSensor \<Rightarrow> DailyHighCostSensor_available s
      | TotalDailyConsumptionSensor \<Rightarrow> TotalDailyConsumptionSensor_available s)"

definition sensor_native_value ::
  "('f \<Rightarrow> 'f \<Rightarrow> 'f) \<Rightarrow> ('f \<Rightarrow> 'f \<Rightarrow> 'f) \<Rightarrow> sensor_class \<Rightarrow> 'f EnergyDeviceMonitorSensor
     \<Rightarrow> error + 'f" where
  "sensor_native_value fmul fadd cls s =
     (case cls of
        TotalDailyCostSensor \<Rightarrow> TotalDailyCostSensor_native_value fmul fadd s
      | DailyLowCostSensor \<Rightarrow> DailyLowCostSensor_native_value fmul s
      | DailyHighCostSensor \<Rightarrow> DailyHighCostSensor_native_value fmul s
      | TotalDailyConsumptionSensor \<Rightarrow> TotalDailyConsumptionSensor_native_value fadd s)"

text \<open>
  Every snapshot the code constructs either is available and holds a number, or is
  unavailable and holds none (lines 147, 149 and 151 of sensor.py). This predicate
  names that shape; it is used in the proofs only.
\<close>

definition well_formed :: "'f EnergyDeviceEntityState \<Rightarrow> bool" where
  "well_formed st = (available st = (state st \<noteq> None))"

section \<open>sensor.py: the daily boundary\<close>

text \<open>
  \<^verbatim>\<open>
  @property
  def last_reset(self) -> datetime:
      tz = zoneinfo.ZoneInfo(self.hass.config.time_zone)
      return datetime.combine(datetime.now(tz).date(), time.min, tzinfo=tz)
  \<close>
  A \<^verbatim>\<open>datetime\<close> is a calendar date, a time of day and a time zone object. The
  zone database (\<open>ZoneInfo\<close>, which raises for a key it does not know) and the clock
  (\<open>now\<close>, the current wall-clock reading in a zone) belong to the Python runtime and
  are parameters; \<open>'tz\<close> is the type of zone objects.
\<close>

record date =
  year :: int
  month :: int
  day :: int

record time =
  hour :: int
  minute :: int
  second :: int
  microsecond :: int

record 'tz datetime =
  datetime_date :: date
  datetime_time :: time
  tzinfo :: "'tz option"

definition time_min :: time where
  "time_min = \<lparr>hour = 0, minute = 0, second = 0, microsecond = 0\<rparr>"

definition datetime_combine :: "date \<Rightarrow> time \<Rightarrow> 'tz option \<Rightarrow> 'tz datetime" where
  "datetime_combine d t tz = \<lparr>datetime_date = d, datetime_time = t, tzinfo = tz\<rparr>"

definition TotalDailyCostSensor_last_reset ::
  "(string \<Rightarrow> error + 'tz) \<Rightarrow> ('tz \<Rightarrow> 'tz datetime) \<Rightarrow> string \<Rightarrow> 'f EnergyDeviceMonitorSensor
     \<Rightarrow> error + 'tz datetime" where
  "TotalDailyCostSensor_last_reset ZoneInfo now time_zone s =
     bind_err (ZoneInfo time_zone) (\<lambda>tz.
     Inr (datetime_combine (datetime_date (now tz)) time_min (Some tz)))"

text \<open>
  Only \<^verbatim>\<open>TotalDailyCostSensor\<close> defines \<^verbatim>\<open>last_reset\<close>. The other three
  classes have no such property of their own; \<open>None\<close> stands for that (what the
  host's base class then answers is not part of the repository).
\<close>

definition sensor_last_reset ::
  "(string \<Rightarrow> error + 'tz) \<Rightarrow> ('tz \<Rightarrow> 'tz datetime) \<Rightarrow> string \<Rightarrow> sensor_class
     \<Rightarrow> 'f EnergyDeviceMonitorSensor \<Rightarrow> (error + 'tz datetime) option" where
  "sensor_last_reset ZoneInfo now time_zone cls s =
     (case cls of
        TotalDailyCostSensor \<Rightarrow> Some (TotalDailyCostSensor_last_reset ZoneInfo now time_zone s)
      | DailyLowCostSensor \<Rightarrow> None
      | DailyHighCostSensor \<Rightarrow> None
      | TotalDailyConsumptionSensor \<Rightarrow> None)"

section \<open>controller.py\<close>

text \<open>
  \<^verbatim>\<open>
  class Controller:
      low_tariff_entity_id: str
      high_tariff_entity_id: str
      low_tariff_state: State | None = None
      high_tariff_state: State | None = None
      ...
      @property
      def low_tariff_state(self) -> State | None:
          """Return the current state of the low tariff entity."""
          return self.low_tariff_state
  \<close>
  The property is defined after the class attribute of the same name and replaces it in
  the class namespace, so \<^verbatim>\<open>self.low_tariff_state\<close> inside the getter is the
  getter again. Each call takes one frame of the interpreter's stack; \<open>frames\<close> is
  the number of frames left before the recursion limit, where Python raises
  RecursionError.
\<close>

record Controller =
  low_tariff_entity_id :: string
  high_tariff_entity_id :: string

definition Controller_init :: "string \<Rightarrow> string \<Rightarrow> Controller" where
  "Controller_init low_id high_id =
     \<lparr>low_tariff_entity_id = low_id, high_tariff_entity_id = high_id\<rparr>"

fun Controller_low_tariff_state :: "nat \<Rightarrow> Controller \<Rightarrow> error + State option" where
  "Controller_low_tariff_state 0 self = Inl RecursionError"
| "Controller_low_tariff_state (Suc frames) self = Controller_low_tariff_state frames self"

fun Controller_high_tariff_state :: "nat \<Rightarrow> Controller \<Rightarrow> error + State option" where
  "Controller_high_tariff_state 0 self = Inl RecursionError"
| "Controller_high_tariff_state (Suc frames) self = Controller_high_tariff_state frames self"

section \<open>A concrete installation\<close>

text \<open>
  One configuration entry with its two tariff entities, one device subentry with its two
  consumption entities, a \<^verbatim>\<open>float\<close> that knows four numerals, and the exact
  reals in the place of floats. The closed instances of the theorems below are stated
  on these values.
\<close>

abbreviation example_entry :: "string \<rightharpoonup> string" where
  "example_entry \<equiv>
     [CONF_LOW_TARIFF_ENTITY \<mapsto> ''sensor.low_tariff'',
      CONF_HIGH_TARIFF_ENTITY \<mapsto> ''sensor.high_tariff'']"

abbreviation example_subentry :: "string \<rightharpoonup> string" where
  "example_subentry \<equiv>
     [CONF_DEVICE_NAME \<mapsto> ''boiler'',
      ''conf_device_friendly_name'' \<mapsto> ''Boiler'',
      CONF_LOW_CONSUMPTION_ENTITY \<mapsto> ''sensor.boiler_low'',
      CONF_HIGH_CONSUMPTION_ENTITY \<mapsto> ''sensor.boiler_high'']"

abbreviation example_float :: "string \<Rightarrow> error + real" where
  "example_float \<equiv> (\<lambda>raw.
     if raw = ''0.20'' then Inr (1 / 5)
     else if raw = ''0.30'' then Inr (3 / 10)
     else if raw = ''10.0'' then Inr 10
     else if raw = ''5.0'' then Inr 5
     else Inl ValueError)"

abbreviation example_sensor ::
  "bool \<Rightarrow> bool \<Rightarrow> bool \<Rightarrow> bool \<Rightarrow> real EnergyDeviceMonitorSensor" where
  "example_sensor lc hc lt ht \<equiv>
     \<lparr>entry_data = example_entry, subentry_data = example_subentry,
      device_name = ''boiler'', device_friendly_name = ''Boiler'',
      include_low_consumption = lc, include_high_consumption = hc,
      include_low_tariff = lt, include_high_tariff = ht,
      low_tariff_state = None, high_tariff_state = None,
      low_consumption_state = None, high_consumption_state = None\<rparr>"

abbreviation raw_state :: "string \<Rightarrow> State option" where
  "raw_state raw \<equiv> Some \<lparr>State_state = Some raw\<rparr>"

section \<open>Auxiliary facts\<close>

lemma bind_err_Inr: "bind_err (Inr x) f = f x"
  by (simp add: bind_err_def)

lemma bind_err_Inl: "bind_err (Inl e) f = Inl e"
  by (simp add: bind_err_def)

lemma dict_get_Some: "d k = Some v \<Longrightarrow> dict_get d k = Inr v"
  by (simp add: dict_get_def)

lemma no_state_unavailable:
  "hass eid = None \<Longrightarrow>
     async_update_entity_state pyfloat hass eid = Inr \<lparr>available = False, state = None\<rparr>"
  by (simp add: async_update_entity_state_def)

lemma async_update_entity_state_well_formed:
  "async_update_entity_state pyfloat hass eid = Inr st \<Longrightarrow> well_formed st"
  by (auto simp: async_update_entity_state_def well_formed_def
           split: option.splits sum.splits error.splits if_splits)

lemma async_update_entity_state_not_ValueError:
  "async_update_entity_state pyfloat hass eid \<noteq> Inl ValueError"
  by (auto simp: async_update_entity_state_def
           split: option.splits sum.splits error.splits)

lemma init_Inr:
  "EnergyDeviceMonitorSensor_init K e sub lc hc lt ht = Inr (s0, tr) \<Longrightarrow>
     entry_data s0 = e \<and> subentry_data s0 = sub \<and>
     include_low_consumption s0 = lc \<and> include_high_consumption s0 = hc \<and>
     include_low_tariff s0 = lt \<and> include_high_tariff s0 = ht \<and>
     low_tariff_state s0 = None \<and> high_tariff_state s0 = None \<and>
     low_consumption_state s0 = None \<and> high_consumption_state s0 = None \<and>
     entities_to_track e sub lc hc lt ht = Inr tr"
  by (auto simp: EnergyDeviceMonitorSensor_init_def bind_err_def split: sum.splits)

lemma entities_to_track_set:
  "entities_to_track e sub lc hc lt ht = Inr tr \<Longrightarrow>
     set tr = {x. (lt \<and> e CONF_LOW_TARIFF_ENTITY = Some x)
                \<or> (ht \<and> e CONF_HIGH_TARIFF_ENTITY = Some x)
                \<or> (lc \<and> sub CONF_LOW_CONSUMPTION_ENTITY = Some x)
                \<or> (hc \<and> sub CONF_HIGH_CONSUMPTION_ENTITY = Some x)}"
  by (auto simp: entities_to_track_def bind_err_def dict_get_def
           split: sum.splits if_splits option.splits)

lemma async_update_frame:
  "async_update pyfloat hass s = Inr s' \<Longrightarrow>
     entry_data s' = entry_data s \<and> subentry_data s' = subentry_data s \<and>
     device_name s' = device_name s \<and> device_friendly_name s' = device_friendly_name s \<and>
     include_low_consumption s' = include_low_consumption s \<and>
     include_high_consumption s' = include_high_consumption s \<and>
     include_low_tariff s' = include_low_tariff s \<and>
     include_high_tariff s' = include_high_tariff s"
  by (auto simp: async_update_def bind_err_def split: sum.splits if_splits)

lemma async_update_low_tariff:
  "async_update pyfloat hass s = Inr s' \<Longrightarrow>
     (if include_low_tariff s
      then \<exists>eid st. entry_data s CONF_LOW_TARIFF_ENTITY = Some eid \<and>
             async_update_entity_state pyfloat hass eid = Inr st \<and> low_tariff_state s' = Some st
      else low_tariff_state s' = low_tariff_state s)"
  by (auto simp: async_update_def bind_err_def dict_get_def
           split: sum.splits if_splits option.splits)

lemma async_update_high_tariff:
  "async_update pyfloat hass s = Inr s' \<Longrightarrow>
     (if include_high_tariff s
      then \<exists>eid st. entry_data s CONF_HIGH_TARIFF_ENTITY = Some eid \<and>
             async_update_entity_state pyfloat hass eid = Inr st \<and> high_tariff_state s' = Some st
      else high_tariff_state s' = high_tariff_state s)"
  by (auto simp: async_update_def bind_err_def dict_get_def
           split: sum.splits if_splits option.splits)

lemma async_update_low_consumption:
  "async_update pyfloat hass s = Inr s' \<Longrightarrow>
     (if include_low_consumption s
      then \<exists>eid st. subentry_data s CONF_LOW_CONSUMPTION_ENTITY = Some eid \<and>
             async_update_entity_state pyfloat hass eid = Inr st \<and>
             low_consumption_state s' = Some st
      else low_consumption_state s' = low_consumption_state s)"
  by (auto simp: async_update_def bind_err_def dict_get_def
           split: sum.splits if_splits option.splits)

lemma async_update_high_consumption:
  "async_update pyfloat hass s = Inr s' \<Longrightarrow>
     (if include_high_consumption s
      then \<exists>eid st. subentry_data s CONF_HIGH_CONSUMPTION_ENTITY = Some eid \<and>
             async_update_entity_state pyfloat hass eid = Inr st \<and>
             high_consumption_state s' = Some st
      else high_consumption_state s' = high_consumption_state s)"
  by (auto simp: async_update_def bind_err_def dict_get_def
           split: sum.splits if_splits option.splits)

lemma product_blocked:
  assumes "well_formed a" "well_formed b" "\<not> available a \<or> \<not> available b"
  shows "slot_product fmul (Some a) (Some b) = Inl TypeError"
  using assms
  by (auto simp: slot_product_def getattr_state_def bind_err_def py_mul_def well_formed_def
           split: option.splits)

lemma product_ok:
  assumes "well_formed a" "well_formed b" "available a" "available b"
  shows "\<exists>v. slot_product fmul (Some a) (Some b) = Inr v"
  using assms
  by (auto simp: slot_product_def getattr_state_def bind_err_def py_mul_def well_formed_def
           split: option.splits)

lemma total_cost_blocked:
  assumes "low_tariff_state s = Some a" "low_consumption_state s = Some b"
    "high_tariff_state s = Some c" "high_consumption_state s = Some d"
    "well_formed a" "well_formed b" "well_formed c" "well_formed d"
    "\<not> available a \<or> \<not> available b \<or> \<not> available c \<or> \<not> available d"
  shows "TotalDailyCostSensor_available s = Inr False"
    and "TotalDailyCostSensor_native_value fmul fadd s = Inl TypeError"
proof -
  show "TotalDailyCostSensor_available s = Inr False"
    using assms
    by (auto simp: TotalDailyCostSensor_available_def state_available_def getattr_state_def
                   bind_err_def py_and_def)
  consider (low) "\<not> available a \<or> \<not> available b"
    | (high) "available a" "available b" "\<not> available c \<or> \<not> available d"
    using assms(9) by blast
  then show "TotalDailyCostSensor_native_value fmul fadd s = Inl TypeError"
  proof cases
    case low
    then have "slot_product fmul (Some a) (Some b) = Inl TypeError"
      using assms(5,6) by (intro product_blocked) auto
    then show ?thesis
      using assms(1-4) by (simp add: TotalDailyCostSensor_native_value_def bind_err_def)
  next
    case high
    then obtain v where "slot_product fmul (Some a) (Some b) = Inr v"
      using product_ok assms(5,6) by blast
    moreover have "slot_product fmul (Some c) (Some d) = Inl TypeError"
      using high assms(7,8) by (intro product_blocked) auto
    ultimately show ?thesis
      using assms(1-4) by (simp add: TotalDailyCostSensor_native_value_def bind_err_def)
  qed
qed

lemma low_cost_blocked:
  assumes "low_tariff_state s = Some a" "low_consumption_state s = Some b"
    "well_formed a" "well_formed b" "\<not> available a \<or> \<not> available b"
  shows "DailyLowCostSensor_available s = Inr False"
    and "DailyLowCostSensor_native_value fmul s = Inl TypeError"
  using assms product_blocked [of a b fmul]
  by (auto simp: DailyLowCostSensor_available_def DailyLowCostSensor_native_value_def
                 state_available_def getattr_state_def bind_err_def py_and_def)

lemma high_cost_blocked:
  assumes "high_tariff_state s = Some a" "high_consumption_state s = Some b"
    "well_formed a" "well_formed b" "\<not> available a \<or> \<not> available b"
  shows "DailyHighCostSensor_available s = Inr False"
    and "DailyHighCostSensor_native_value fmul s = Inl TypeError"
  using assms product_blocked [of a b fmul]
  by (auto simp: DailyHighCostSensor_available_def DailyHighCostSensor_native_value_def
                 state_available_def getattr_state_def bind_err_def py_and_def)

lemma total_consumption_blocked:
  assumes "low_consumption_state s = Some a" "high_consumption_state s = Some b"
    "well_formed a" "well_formed b" "\<not> available a \<or> \<not> available b"
  shows "TotalDailyConsumptionSensor_available s = Inr False"
    and "TotalDailyConsumptionSensor_native_value fadd s = Inl TypeError"
  using assms
  by (auto simp: TotalDailyConsumptionSensor_available_def
                 TotalDailyConsumptionSensor_native_value_def well_formed_def py_add_def
                 state_available_def getattr_state_def bind_err_def py_and_def
           split: option.splits)

lemma tracked_unavailable:
  assumes init: "sensor_init K cls entry sub = Inr (s0, tr)"
      and upd: "async_update pyfloat hass s0 = Inr s"
      and mem: "eid \<in> set tr"
      and un: "async_update_entity_state pyfloat hass eid = Inr u" "\<not> available u"
  shows "sensor_available cls s = Inr False"
    and "sensor_native_value fmul fadd cls s = Inl TypeError"
proof -
  note A = async_update_low_tariff [OF upd] async_update_high_tariff [OF upd]
           async_update_low_consumption [OF upd] async_update_high_consumption [OF upd]
  note W = async_update_entity_state_well_formed
  have "sensor_available cls s = Inr False \<and> sensor_native_value fmul fadd cls s = Inl TypeError"
  proof (cases cls)
    case TotalDailyCostSensor
    with init have i: "EnergyDeviceMonitorSensor_init K entry sub True True True True = Inr (s0, tr)"
      by (simp add: sensor_init_def)
    note I = init_Inr [OF i]
    from A I obtain e1 a e2 c e3 b e4 d where
      s: "entry CONF_LOW_TARIFF_ENTITY = Some e1" "async_update_entity_state pyfloat hass e1 = Inr a"
         "low_tariff_state s = Some a"
         "entry CONF_HIGH_TARIFF_ENTITY = Some e2" "async_update_entity_state pyfloat hass e2 = Inr c"
         "high_tariff_state s = Some c"
         "sub CONF_LOW_CONSUMPTION_ENTITY = Some e3" "async_update_entity_state pyfloat hass e3 = Inr b"
         "low_consumption_state s = Some b"
         "sub CONF_HIGH_CONSUMPTION_ENTITY = Some e4" "async_update_entity_state pyfloat hass e4 = Inr d"
         "high_consumption_state s = Some d"
      by auto
    from mem I s have "eid = e1 \<or> eid = e2 \<or> eid = e3 \<or> eid = e4"
      by (auto simp: entities_to_track_set)
    with un s have "\<not> available a \<or> \<not> available b \<or> \<not> available c \<or> \<not> available d"
      by auto
    from total_cost_blocked [OF s(3) s(9) s(6) s(12) W [OF s(2)] W [OF s(8)] W [OF s(5)] W [OF s(11)] this]
    show ?thesis using TotalDailyCostSensor
      by (simp add: sensor_available_def sensor_native_value_def)
  next
    case DailyLowCostSensor
    with init have i: "EnergyDeviceMonitorSensor_init K entry sub True False True False = Inr (s0, tr)"
      by (simp add: sensor_init_def)
    note I = init_Inr [OF i]
    from A I obtain e1 a e3 b where
      s: "entry CONF_LOW_TARIFF_ENTITY = Some e1" "async_update_entity_state pyfloat hass e1 = Inr a"
         "low_tariff_state s = Some a"
         "sub CONF_LOW_CONSUMPTION_ENTITY = Some e3" "async_update_entity_state pyfloat hass e3 = Inr b"
         "low_consumption_state s = Some b"
      by auto
    from mem I s have "eid = e1 \<or> eid = e3"
      by (auto simp: entities_to_track_set)
    with un s have "\<not> available a \<or> \<not> available b"
      by auto
    from low_cost_blocked [OF s(3) s(6) W [OF s(2)] W [OF s(5)] this]
    show ?thesis using DailyLowCostSensor
      by (simp add: sensor_available_def sensor_native_value_def)
  next
    case DailyHighCostSensor
    with init have i: "EnergyDeviceMonitorSensor_init K entry sub False True False True = Inr (s0, tr)"
      by (simp add: sensor_init_def)
    note I = init_Inr [OF i]
    from A I obtain e2 a e4 b where
      s: "entry CONF_HIGH_TARIFF_ENTITY = Some e2" "async_update_entity_state pyfloat hass e2 = Inr a"
         "high_tariff_state s = Some a"
         "sub CONF_HIGH_CONSUMPTION_ENTITY = Some e4" "async_update_entity_state pyfloat hass e4 = Inr b"
         "high_consumption_state s = Some b"
      by auto
    from mem I s have "eid = e2 \<or> eid = e4"
      by (auto simp: entities_to_track_set)
    with un s have "\<not> available a \<or> \<not> available b"
      by auto
    from high_cost_blocked [OF s(3) s(6) W [OF s(2)] W [OF s(5)] this]
    show ?thesis using DailyHighCostSensor
      by (simp add: sensor_available_def sensor_native_value_def)
  next
    case TotalDailyConsumptionSensor
    with init have i: "EnergyDeviceMonitorSensor_init K entry sub True True False False = Inr (s0, tr)"
      by (simp add: sensor_init_def)
    note I = init_Inr [OF i]
    from A I obtain e3 a e4 b where
      s: "sub CONF_LOW_CONSUMPTION_ENTITY = Some e3" "async_update_entity_state pyfloat hass e3 = Inr a"
         "low_consumption_state s = Some a"
         "sub CONF_HIGH_CONSUMPTION_ENTITY = Some e4" "async_update_entity_state pyfloat hass e4 = Inr b"
         "high_consumption_state s = Some b"
      by auto
    from mem I s have "eid = e3 \<or> eid = e4"
      by (auto simp: entities_to_track_set)
    with un s have "\<not> available a \<or> \<not> available b"
      by auto
    from total_consumption_blocked [OF s(3) s(6) W [OF s(2)] W [OF s(5)] this]
    show ?thesis using TotalDailyConsumptionSensor
      by (simp add: sensor_available_def sensor_native_value_def)
  qed
  then show "sensor_available cls s = Inr False"
    and "sensor_native_value fmul fadd cls s = Inl TypeError"
    by simp_all
qed

lemma async_update_idem:
  assumes upd: "async_update pyfloat hass s = Inr s1"
  shows "async_update pyfloat hass s1 = Inr s1"
proof -
  note F = async_update_frame [OF upd]
  have 1: "(if include_low_tariff s1
            then bind_err (dict_get (entry_data s1) CONF_LOW_TARIFF_ENTITY) (\<lambda>eid.
                 bind_err (async_update_entity_state pyfloat hass eid) (\<lambda>st.
                 Inr (s1\<lparr>low_tariff_state := Some st\<rparr>)))
            else Inr s1) = Inr s1"
    using F async_update_low_tariff [OF upd]
    by (cases s1) (auto simp: bind_err_Inr dict_get_Some)
  have 2: "(if include_high_tariff s1
            then bind_err (dict_get (entry_data s1) CONF_HIGH_TARIFF_ENTITY) (\<lambda>eid.
                 bind_err (async_update_entity_state pyfloat hass eid) (\<lambda>st.
                 Inr (s1\<lparr>high_tariff_state := Some st\<rparr>)))
            else Inr s1) = Inr s1"
    using F async_update_high_tariff [OF upd]
    by (cases s1) (auto simp: bind_err_Inr dict_get_Some)
  have 3: "(if include_low_consumption s1
            then bind_err (dict_get (subentry_data s1) CONF_LOW_CONSUMPTION_ENTITY) (\<lambda>eid.
                 bind_err (async_update_entity_state pyfloat hass eid) (\<lambda>st.
                 Inr (s1\<lparr>low_consumption_state := Some st\<rparr>)))
            else Inr s1) = Inr s1"
    using F async_update_low_consumption [OF upd]
    by (cases s1) (auto simp: bind_err_Inr dict_get_Some)
  have 4: "(if include_high_consumption s1
            then bind_err (dict_get (subentry_data s1) CONF_HIGH_CONSUMPTION_ENTITY) (\<lambda>eid.
                 bind_err (async_update_entity_state pyfloat hass eid) (\<lambda>st.
                 Inr (s1\<lparr>high_consumption_state := Some st\<rparr>)))
            else Inr s1) = Inr s1"
    using F async_update_high_consumption [OF upd]
    by (cases s1) (auto simp: bind_err_Inr dict_get_Some)
  show ?thesis
    unfolding async_update_def by (simp only: 1 2 3 4 bind_err_Inr)
qed

lemma entities_to_track_keys:
  "entities_to_track e sub lc hc lt ht = Inr tr \<Longrightarrow>
     (lt \<longrightarrow> (\<exists>x. e CONF_LOW_TARIFF_ENTITY = Some x \<and> x \<in> set tr)) \<and>
     (ht \<longrightarrow> (\<exists>x. e CONF_HIGH_TARIFF_ENTITY = Some x \<and> x \<in> set tr)) \<and>
     (lc \<longrightarrow> (\<exists>x. sub CONF_LOW_CONSUMPTION_ENTITY = Some x \<and> x \<in> set tr)) \<and>
     (hc \<longrightarrow> (\<exists>x. sub CONF_HIGH_CONSUMPTION_ENTITY = Some x \<and> x \<in> set tr))"
  by (auto simp: entities_to_track_def bind_err_def dict_get_def
           split: sum.splits if_splits option.splits)

lemma first_update:
  assumes i: "EnergyDeviceMonitorSensor_init K entry sub lc hc lt ht = Inr (s0, tr)"
    and none: "\<forall>e\<in>set tr. hass e = None"
  shows "async_update pyfloat hass s0 =
           Inr (s0\<lparr>low_tariff_state := if lt then Some \<lparr>available = False, state = None\<rparr> else None,
                   high_tariff_state := if ht then Some \<lparr>available = False, state = None\<rparr> else None,
                   low_consumption_state := if lc then Some \<lparr>available = False, state = None\<rparr> else None,
                   high_consumption_state := if hc then Some \<lparr>available = False, state = None\<rparr> else None\<rparr>)"
proof -
  note I = init_Inr [OF i]
  from I have tr: "entities_to_track entry sub lc hc lt ht = Inr tr" by simp
  note Ks = entities_to_track_keys [OF tr]
  have U: "async_update_entity_state pyfloat hass e = Inr \<lparr>available = False, state = None\<rparr>"
    if "e \<in> set tr" for e
    using none that by (simp add: no_state_unavailable)
  have s0: "s0\<lparr>low_tariff_state := None\<rparr> = s0" "s0\<lparr>high_tariff_state := None\<rparr> = s0"
     "s0\<lparr>low_consumption_state := None\<rparr> = s0" "s0\<lparr>high_consumption_state := None\<rparr> = s0"
    using I by (cases s0, simp)+
  have 1: "(if include_low_tariff s0
            then bind_err (dict_get (entry_data s0) CONF_LOW_TARIFF_ENTITY) (\<lambda>eid.
                 bind_err (async_update_entity_state pyfloat hass eid) (\<lambda>st.
                 Inr (s0\<lparr>low_tariff_state := Some st\<rparr>)))
            else Inr s0)
           = Inr (s0\<lparr>low_tariff_state := if lt then Some \<lparr>available = False, state = None\<rparr> else None\<rparr>)"
    (is "_ = Inr ?s1")
  proof -
    consider (y) "lt" | (n) "\<not> lt" by blast
    then show ?thesis
    proof cases
      case y
      with Ks obtain x where "entry CONF_LOW_TARIFF_ENTITY = Some x" "x \<in> set tr" by blast
      with y I U [of x] show ?thesis by (simp add: bind_err_Inr dict_get_Some)
    next
      case n
      with I s0 show ?thesis by simp
    qed
  qed
  have 2: "(if include_high_tariff ?s1
            then bind_err (dict_get (entry_data ?s1) CONF_HIGH_TARIFF_ENTITY) (\<lambda>eid.
                 bind_err (async_update_entity_state pyfloat hass eid) (\<lambda>st.
                 Inr (?s1\<lparr>high_tariff_state := Some st\<rparr>)))
            else Inr ?s1)
           = Inr (?s1\<lparr>high_tariff_state := if ht then Some \<lparr>available = False, state = None\<rparr> else None\<rparr>)"
    (is "_ = Inr ?s2")
  proof -
    consider (y) "ht" | (n) "\<not> ht" by blast
    then show ?thesis
    proof cases
      case y
      with Ks obtain x where "entry CONF_HIGH_TARIFF_ENTITY = Some x" "x \<in> set tr" by blast
      with y I U [of x] show ?thesis by (simp add: bind_err_Inr dict_get_Some)
    next
      case n
      with I show ?thesis by (cases s0) simp
    qed
  qed
  have 3: "(if include_low_consumption ?s2
            then bind_err (dict_get (subentry_data ?s2) CONF_LOW_CONSUMPTION_ENTITY) (\<lambda>eid.
                 bind_err (async_update_entity_state pyfloat hass eid) (\<lambda>st.
                 Inr (?s2\<lparr>low_consumption_state := Some st\<rparr>)))
            else Inr ?s2)
           = Inr (?s2\<lparr>low_consumption_state := if lc then Some \<lparr>available = False, state = None\<rparr> else None\<rparr>)"
    (is "_ = Inr ?s3")
  proof -
    consider (y) "lc" | (n) "\<not> lc" by blast
    then show ?thesis
    proof cases
      case y
      with Ks obtain x where "sub CONF_LOW_CONSUMPTION_ENTITY = Some x" "x \<in> set tr" by blast
      with y I U [of x] show ?thesis by (simp add: bind_err_Inr dict_get_Some)
    next
      case n
      with I show ?thesis by (cases s0) simp
    qed
  qed
  have 4: "(if include_high_consumption ?s3
            then bind_err (dict_get (subentry_data ?s3) CONF_HIGH_CONSUMPTION_ENTITY) (\<lambda>eid.
                 bind_err (async_update_entity_state pyfloat hass eid) (\<lambda>st.
                 Inr (?s3\<lparr>high_consumption_state := Some st\<rparr>)))
            else Inr ?s3)
           = Inr (?s3\<lparr>high_consumption_state := if hc then Some \<lparr>available = False, state = None\<rparr> else None\<rparr>)"
  proof -
    consider (y) "hc" | (n) "\<not> hc" by blast
    then show ?thesis
    proof cases
      case y
      with Ks obtain x where "sub CONF_HIGH_CONSUMPTION_ENTITY = Some x" "x \<in> set tr" by blast
      with y I U [of x] show ?thesis by (simp add: bind_err_Inr dict_get_Some)
    next
      case n
      with I show ?thesis by (cases s0) simp
    qed
  qed
  show ?thesis
    unfolding async_update_def by (simp only: 1 2 3 4 bind_err_Inr)
qed

lemma bind_err_neq:
  "m \<noteq> Inl e \<Longrightarrow> (\<And>x. f x \<noteq> Inl e) \<Longrightarrow> bind_err m f \<noteq> Inl e"
  by (cases m) (simp_all add: bind_err_def)

lemma refresh_step_not_ValueError:
  "(if c then bind_err (dict_get d k) (\<lambda>eid.
             bind_err (async_update_entity_state pyfloat hass eid) (\<lambda>st. Inr (g st)))
    else Inr s) \<noteq> Inl ValueError"
proof -
  have inner: "bind_err (async_update_entity_state pyfloat hass eid) (\<lambda>st. Inr (g st))
                 \<noteq> Inl ValueError" for eid
    by (rule bind_err_neq) (simp_all add: async_update_entity_state_not_ValueError)
  have key: "dict_get d k \<noteq> Inl ValueError"
    by (simp add: dict_get_def split: option.splits)
  have "bind_err (dict_get d k) (\<lambda>eid.
          bind_err (async_update_entity_state pyfloat hass eid) (\<lambda>st. Inr (g st)))
        \<noteq> Inl ValueError"
    using key inner by (rule bind_err_neq)
  then show ?thesis by simp
qed

lemma async_update_not_ValueError: "async_update pyfloat hass s \<noteq> Inl ValueError"
  unfolding async_update_def
  by (intro bind_err_neq refresh_step_not_ValueError)

lemma py_and_Inr: "py_and (Inr a) (Inr b) = Inr (a \<and> b)"
  by (simp add: py_and_def)

lemma state_available_Some: "state_available (Some st) = Inr (available st)"
  by (simp add: state_available_def getattr_state_def bind_err_def)

lemma state_available_None: "state_available None = Inl AttributeError"
  by (simp add: state_available_def getattr_state_def bind_err_def)

lemma py_and_Inl: "py_and (Inl e) b = Inl e"
  by (simp add: py_and_def)

lemma slot_product_values:
  "slot_product fmul (Some \<lparr>available = a, state = Some x\<rparr>)
     (Some \<lparr>available = b, state = Some y\<rparr>) = Inr (fmul x y)"
  by (simp add: slot_product_def getattr_state_def bind_err_def py_mul_def)

lemma slot_sum_values:
  "bind_err (getattr_state (Some \<lparr>available = a, state = Some x\<rparr>)) (\<lambda>lc.
   bind_err (getattr_state (Some \<lparr>available = b, state = Some y\<rparr>)) (\<lambda>hc.
   py_add fadd (state lc) (state hc))) = Inr (fadd x y)"
  by (simp add: getattr_state_def bind_err_def py_add_def)

lemma refresh_step_succeeds:
  assumes "c \<longrightarrow> (\<exists>e x. d k = Some e \<and> async_update_entity_state pyfloat hass e = Inr x)"
  shows "\<exists>r. (if c then bind_err (dict_get d k) (\<lambda>eid.
                     bind_err (async_update_entity_state pyfloat hass eid) (\<lambda>st. Inr (g st)))
              else Inr s) = Inr r
             \<and> (r = s \<or> (\<exists>x. r = g x))"
  using assms by (auto simp: bind_err_Inr dict_get_Some)

lemma async_update_succeeds:
  assumes lt: "include_low_tariff s \<longrightarrow>
                 (\<exists>e x. entry_data s CONF_LOW_TARIFF_ENTITY = Some e
                        \<and> async_update_entity_state pyfloat hass e = Inr x)"
    and ht: "include_high_tariff s \<longrightarrow>
                 (\<exists>e x. entry_data s CONF_HIGH_TARIFF_ENTITY = Some e
                        \<and> async_update_entity_state pyfloat hass e = Inr x)"
    and lc: "include_low_consumption s \<longrightarrow>
                 (\<exists>e x. subentry_data s CONF_LOW_CONSUMPTION_ENTITY = Some e
                        \<and> async_update_entity_state pyfloat hass e = Inr x)"
    and hc: "include_high_consumption s \<longrightarrow>
                 (\<exists>e x. subentry_data s CONF_HIGH_CONSUMPTION_ENTITY = Some e
                        \<and> async_update_entity_state pyfloat hass e = Inr x)"
  shows "\<exists>s'. async_update pyfloat hass s = Inr s'"
proof -
  from refresh_step_succeeds
    [where c = "include_low_tariff s" and d = "entry_data s" and k = CONF_LOW_TARIFF_ENTITY
       and pyfloat = pyfloat and hass = hass
       and g = "\<lambda>st. s\<lparr>low_tariff_state := Some st\<rparr>" and s = s, OF lt]
  obtain s1 where
    a1: "(if include_low_tariff s
          then bind_err (dict_get (entry_data s) CONF_LOW_TARIFF_ENTITY) (\<lambda>eid.
               bind_err (async_update_entity_state pyfloat hass eid) (\<lambda>st.
               Inr (s\<lparr>low_tariff_state := Some st\<rparr>)))
          else Inr s) = Inr s1"
    and r1: "s1 = s \<or> (\<exists>x. s1 = s\<lparr>low_tariff_state := Some x\<rparr>)"
    by blast
  from r1 have f1: "entry_data s1 = entry_data s" "subentry_data s1 = subentry_data s"
    "include_high_tariff s1 = include_high_tariff s"
    "include_low_consumption s1 = include_low_consumption s"
    "include_high_consumption s1 = include_high_consumption s"
    by auto
  from ht f1 have ht1: "include_high_tariff s1 \<longrightarrow>
                 (\<exists>e x. entry_data s1 CONF_HIGH_TARIFF_ENTITY = Some e
                        \<and> async_update_entity_state pyfloat hass e = Inr x)"
    by simp
  from refresh_step_succeeds
    [where c = "include_high_tariff s1" and d = "entry_data s1" and k = CONF_HIGH_TARIFF_ENTITY
       and pyfloat = pyfloat and hass = hass
       and g = "\<lambda>st. s1\<lparr>high_tariff_state := Some st\<rparr>" and s = s1, OF ht1]
  obtain s2 where
    a2: "(if include_high_tariff s1
          then bind_err (dict_get (entry_data s1) CONF_HIGH_TARIFF_ENTITY) (\<lambda>eid.
               bind_err (async_update_entity_state pyfloat hass eid) (\<lambda>st.
               Inr (s1\<lparr>high_tariff_state := Some st\<rparr>)))
          else Inr s1) = Inr s2"
    and r2: "s2 = s1 \<or> (\<exists>x. s2 = s1\<lparr>high_tariff_state := Some x\<rparr>)"
    by blast
  from r2 f1 have f2: "subentry_data s2 = subentry_data s"
    "include_low_consumption s2 = include_low_consumption s"
    "include_high_consumption s2 = include_high_consumption s"
    by auto
  from lc f2 have lc2: "include_low_consumption s2 \<longrightarrow>
                 (\<exists>e x. subentry_data s2 CONF_LOW_CONSUMPTION_ENTITY = Some e
                        \<and> async_update_entity_state pyfloat hass e = Inr x)"
    by simp
  from refresh_step_succeeds
    [where c = "include_low_consumption s2" and d = "subentry_data s2" and k = CONF_LOW_CONSUMPTION_ENTITY
       and pyfloat = pyfloat and hass = hass
       and g = "\<lambda>st. s2\<lparr>low_consumption_state := Some st\<rparr>" and s = s2, OF lc2]
  obtain s3 where
    a3: "(if include_low_consumption s2
          then bind_err (dict_get (subentry_data s2) CONF_LOW_CONSUMPTION_ENTITY) (\<lambda>eid.
               bind_err (async_update_entity_state pyfloat hass eid) (\<lambda>st.
               Inr (s2\<lparr>low_consumption_state := Some st\<rparr>)))
          else Inr s2) = Inr s3"
    and r3: "s3 = s2 \<or> (\<exists>x. s3 = s2\<lparr>low_consumption_state := Some x\<rparr>)"
    by blast
  from r3 f2 have f3: "subentry_data s3 = subentry_data s"
    "include_high_consumption s3 = include_high_consumption s"
    by auto
  from hc f3 have hc3: "include_high_consumption s3 \<longrightarrow>
                 (\<exists>e x. subentry_data s3 CONF_HIGH_CONSUMPTION_ENTITY = Some e
                        \<and> async_update_entity_state pyfloat hass e = Inr x)"
    by simp
  from refresh_step_succeeds
    [where c = "include_high_consumption s3" and d = "subentry_data s3" and k = CONF_HIGH_CONSUMPTION_ENTITY
       and pyfloat = pyfloat and hass = hass
       and g = "\<lambda>st. s3\<lparr>high_consumption_state := Some st\<rparr>" and s = s3, OF hc3]
  obtain s4 where
    a4: "(if include_high_consumption s3
          then bind_err (dict_get (subentry_data s3) CONF_HIGH_CONSUMPTION_ENTITY) (\<lambda>eid.
               bind_err (async_update_entity_state pyfloat hass eid) (\<lambda>st.
               Inr (s3\<lparr>high_consumption_state := Some st\<rparr>)))
          else Inr s3) = Inr s4"
    by blast
  have "async_update pyfloat hass s = Inr s4"
    unfolding async_update_def by (simp only: a1 a2 a3 a4 bind_err_Inr)
  then show ?thesis by blast
qed

lemma update_after_init_succeeds:
  assumes init: "sensor_init K cls entry sub = Inr (built, tr)"
    and ok: "\<forall>e \<in> set tr. \<exists>x. async_update_entity_state pyfloat hass e = Inr x"
  shows "\<exists>s'. async_update pyfloat hass built = Inr s'"
proof -
  obtain lc hc lt ht where
    i: "EnergyDeviceMonitorSensor_init K entry sub lc hc lt ht = Inr (built, tr)"
    using init by (cases cls) (auto simp: sensor_init_def)
  note I = init_Inr [OF i]
  from I have tr: "entities_to_track entry sub lc hc lt ht = Inr tr" by simp
  note Ks = entities_to_track_keys [OF tr]
  show ?thesis
  proof (rule async_update_succeeds)
    show "include_low_tariff built \<longrightarrow>
            (\<exists>e x. entry_data built CONF_LOW_TARIFF_ENTITY = Some e
                   \<and> async_update_entity_state pyfloat hass e = Inr x)"
      using I Ks ok by auto
    show "include_high_tariff built \<longrightarrow>
            (\<exists>e x. entry_data built CONF_HIGH_TARIFF_ENTITY = Some e
                   \<and> async_update_entity_state pyfloat hass e = Inr x)"
      using I Ks ok by auto
    show "include_low_consumption built \<longrightarrow>
            (\<exists>e x. subentry_data built CONF_LOW_CONSUMPTION_ENTITY = Some e
                   \<and> async_update_entity_state pyfloat hass e = Inr x)"
      using I Ks ok by auto
    show "include_high_consumption built \<longrightarrow>
            (\<exists>e x. subentry_data built CONF_HIGH_CONSUMPTION_ENTITY = Some e
                   \<and> async_update_entity_state pyfloat hass e = Inr x)"
      using I Ks ok by auto
  qed
qed

lemma stored_snapshot:
  assumes upd: "async_update pyfloat hass s = Inr s'"
    and res: "async_update_entity_state pyfloat hass entity_id = Inr snapshot"
  shows "(include_low_tariff s \<and> entry_data s CONF_LOW_TARIFF_ENTITY = Some entity_id
            \<longrightarrow> low_tariff_state s' = Some snapshot)
       \<and> (include_high_tariff s \<and> entry_data s CONF_HIGH_TARIFF_ENTITY = Some entity_id
            \<longrightarrow> high_tariff_state s' = Some snapshot)
       \<and> (include_low_consumption s \<and> subentry_data s CONF_LOW_CONSUMPTION_ENTITY = Some entity_id
            \<longrightarrow> low_consumption_state s' = Some snapshot)
       \<and> (include_high_consumption s \<and> subentry_data s CONF_HIGH_CONSUMPTION_ENTITY = Some entity_id
            \<longrightarrow> high_consumption_state s' = Some snapshot)"
  using async_update_low_tariff [OF upd] async_update_high_tariff [OF upd]
        async_update_low_consumption [OF upd] async_update_high_consumption [OF upd] res
  by auto

section \<open>The value tracker: one refresh of one identifier\<close>

text \<open>
  C4. A raw state string that \<^verbatim>\<open>float\<close> parses gives the snapshot
  \<open>available = True\<close> whose \<open>state\<close> is exactly the parsed value, and that
  snapshot is what the sensor holds for the identifier afterwards: whenever
  \<^verbatim>\<open>async_update\<close> completes, each snapshot attribute that tracks the
  identifier (its flag is set and its configuration key names the identifier) is
  that snapshot. A sensor built by its constructor completes the update whenever the
  refresh of every identifier it tracks returns. The sentinel \<^verbatim>\<open>"unavailable"\<close>
  is no number for Python's \<^verbatim>\<open>float\<close>, which is the hypothesis on the
  parameter \<open>pyfloat\<close>.
\<close>

theorem parsed_value_is_tracked:
  assumes "pyfloat STATE_UNAVAILABLE = Inl ValueError"
    and "hass_states entity_id = Some st"
    and "State_state st = Some raw"
    and "pyfloat raw = Inr v"
  shows "async_update_entity_state pyfloat hass_states entity_id
           = Inr \<lparr>available = True, state = Some v\<rparr>
         \<and> (async_update pyfloat hass_states s = Inr s' \<longrightarrow>
               (include_low_tariff s \<and> entry_data s CONF_LOW_TARIFF_ENTITY = Some entity_id
                  \<longrightarrow> low_tariff_state s' = Some \<lparr>available = True, state = Some v\<rparr>)
             \<and> (include_high_tariff s \<and> entry_data s CONF_HIGH_TARIFF_ENTITY = Some entity_id
                  \<longrightarrow> high_tariff_state s' = Some \<lparr>available = True, state = Some v\<rparr>)
             \<and> (include_low_consumption s
                  \<and> subentry_data s CONF_LOW_CONSUMPTION_ENTITY = Some entity_id
                  \<longrightarrow> low_consumption_state s' = Some \<lparr>available = True, state = Some v\<rparr>)
             \<and> (include_high_consumption s
                  \<and> subentry_data s CONF_HIGH_CONSUMPTION_ENTITY = Some entity_id
                  \<longrightarrow> high_consumption_state s' = Some \<lparr>available = True, state = Some v\<rparr>))
         \<and> (sensor_init friendly_key cls entry subentry = Inr (built, tracked)
               \<longrightarrow> (\<forall>e \<in> set tracked. \<exists>x. async_update_entity_state pyfloat hass_states e = Inr x)
               \<longrightarrow> (\<exists>updated. async_update pyfloat hass_states built = Inr updated))"
proof -
  from assms(1,4) have "raw \<noteq> STATE_UNAVAILABLE" by auto
  with assms(2,3,4) have res:
    "async_update_entity_state pyfloat hass_states entity_id
       = Inr \<lparr>available = True, state = Some v\<rparr>"
    by (simp add: async_update_entity_state_def)
  have stored:
    "(include_low_tariff s \<and> entry_data s CONF_LOW_TARIFF_ENTITY = Some entity_id
        \<longrightarrow> low_tariff_state s' = Some \<lparr>available = True, state = Some v\<rparr>)
     \<and> (include_high_tariff s \<and> entry_data s CONF_HIGH_TARIFF_ENTITY = Some entity_id
        \<longrightarrow> high_tariff_state s' = Some \<lparr>available = True, state = Some v\<rparr>)
     \<and> (include_low_consumption s
        \<and> subentry_data s CONF_LOW_CONSUMPTION_ENTITY = Some entity_id
        \<longrightarrow> low_consumption_state s' = Some \<lparr>available = True, state = Some v\<rparr>)
     \<and> (include_high_consumption s
        \<and> subentry_data s CONF_HIGH_CONSUMPTION_ENTITY = Some entity_id
        \<longrightarrow> high_consumption_state s' = Some \<lparr>available = True, state = Some v\<rparr>)"
    if "async_update pyfloat hass_states s = Inr s'"
    using stored_snapshot [OF that res] .
  have completes: "\<exists>updated. async_update pyfloat hass_states built = Inr updated"
    if "sensor_init friendly_key cls entry subentry = Inr (built, tracked)"
      and "\<forall>e \<in> set tracked. \<exists>x. async_update_entity_state pyfloat hass_states e = Inr x"
    using update_after_init_succeeds [OF that] .
  from res stored completes show ?thesis by blast
qed

theorem parsed_value_is_tracked_witness:
  "async_update_entity_state example_float
     (\<lambda>e. if e = ''sensor.low_tariff'' then raw_state ''0.20''
          else if e = ''sensor.boiler_low'' then raw_state ''10.0'' else None)
     ''sensor.low_tariff''
     = Inr \<lparr>available = True, state = Some (1 / 5)\<rparr>
   \<and> async_update example_float
       (\<lambda>e. if e = ''sensor.low_tariff'' then raw_state ''0.20''
            else if e = ''sensor.boiler_low'' then raw_state ''10.0'' else None)
       ((example_sensor True False True False)
          \<lparr>low_tariff_state := Some \<lparr>available = False, state = None\<rparr>\<rparr>)
     = Inr ((example_sensor True False True False)
          \<lparr>low_tariff_state := Some \<lparr>available = True, state = Some (1 / 5)\<rparr>,
           low_consumption_state := Some \<lparr>available = True, state = Some 10\<rparr>\<rparr>)
   \<and> low_tariff_state
       ((example_sensor True False True False)
          \<lparr>low_tariff_state := Some \<lparr>available = True, state = Some (1 / 5)\<rparr>,
           low_consumption_state := Some \<lparr>available = True, state = Some 10\<rparr>\<rparr>)
     = Some \<lparr>available = True, state = Some (1 / 5)\<rparr>"
proof -
  let ?hass = "\<lambda>e. if e = ''sensor.low_tariff'' then raw_state ''0.20''
                    else if e = ''sensor.boiler_low'' then raw_state ''10.0'' else None"
  let ?s = "(example_sensor True False True False)
              \<lparr>low_tariff_state := Some \<lparr>available = False, state = None\<rparr>\<rparr>"
  let ?s' = "(example_sensor True False True False)
              \<lparr>low_tariff_state := Some \<lparr>available = True, state = Some (1 / 5)\<rparr>,
               low_consumption_state := Some \<lparr>available = True, state = Some 10\<rparr>\<rparr>"
  have un: "example_float STATE_UNAVAILABLE = Inl ValueError"
    by (simp add: STATE_UNAVAILABLE_def)
  have host: "?hass ''sensor.low_tariff'' = Some \<lparr>State_state = Some ''0.20''\<rparr>"
    by simp
  have raw: "State_state \<lparr>State_state = Some ''0.20''\<rparr> = Some ''0.20''"
    by simp
  have parse: "example_float ''0.20'' = Inr (1 / 5)"
    by simp
  have upd: "async_update example_float ?hass ?s = Inr ?s'"
    by (simp add: async_update_def async_update_entity_state_def dict_get_def bind_err_def
          CONF_LOW_TARIFF_ENTITY_def CONF_HIGH_TARIFF_ENTITY_def
          CONF_LOW_CONSUMPTION_ENTITY_def CONF_HIGH_CONSUMPTION_ENTITY_def
          STATE_UNAVAILABLE_def)
  have tracks: "include_low_tariff ?s
                \<and> entry_data ?s CONF_LOW_TARIFF_ENTITY = Some ''sensor.low_tariff''"
    by (simp add: CONF_LOW_TARIFF_ENTITY_def CONF_HIGH_TARIFF_ENTITY_def)
  from parsed_value_is_tracked
         [where pyfloat = example_float and hass_states = "?hass"
            and entity_id = "''sensor.low_tariff''"
            and st = "\<lparr>State_state = Some ''0.20''\<rparr>" and raw = "''0.20''"
            and v = "1 / 5" and s = "?s" and s' = "?s'", OF un host raw parse]
       upd tracks
  show ?thesis by blast
qed

text \<open>
  C5. When the host has no state object for the identifier, or the object's state is
  \<^verbatim>\<open>None\<close>, or it is the sentinel \<^verbatim>\<open>"unavailable"\<close>, or
  \<^verbatim>\<open>float\<close> raises ValueError on it (which is what Python's \<^verbatim>\<open>float\<close>
  does on the empty string and on text that is no number), the refresh returns the
  snapshot \<open>available = False\<close> and raises nothing, and that snapshot replaces
  whatever the sensor held for the identifier: whenever \<^verbatim>\<open>async_update\<close>
  completes, each snapshot attribute that tracks the identifier is the unavailable
  snapshot. For every input, no ValueError leaves
  \<^verbatim>\<open>_async_update_entity_state\<close> or \<^verbatim>\<open>async_update\<close>. A sensor built by
  its constructor that tracks the identifier completes the update whenever the refresh
  of every identifier it tracks returns, and then reports \<open>available = False\<close>.
\<close>

theorem unusable_raw_value_is_unavailable:
  assumes "hass_states entity_id = None
           \<or> (\<exists>st. hass_states entity_id = Some st \<and>
                 (State_state st = None
                  \<or> State_state st = Some STATE_UNAVAILABLE
                  \<or> (\<exists>raw. State_state st = Some raw \<and> pyfloat raw = Inl ValueError)))"
  shows "async_update_entity_state pyfloat hass_states entity_id
           = Inr \<lparr>available = False, state = None\<rparr>
         \<and> async_update_entity_state pyfloat hass_states entity_id \<noteq> Inl ValueError
         \<and> async_update pyfloat hass_states s \<noteq> Inl ValueError
         \<and> (async_update pyfloat hass_states s = Inr s' \<longrightarrow>
               (include_low_tariff s \<and> entry_data s CONF_LOW_TARIFF_ENTITY = Some entity_id
                  \<longrightarrow> low_tariff_state s' = Some \<lparr>available = False, state = None\<rparr>)
             \<and> (include_high_tariff s \<and> entry_data s CONF_HIGH_TARIFF_ENTITY = Some entity_id
                  \<longrightarrow> high_tariff_state s' = Some \<lparr>available = False, state = None\<rparr>)
             \<and> (include_low_consumption s
                  \<and> subentry_data s CONF_LOW_CONSUMPTION_ENTITY = Some entity_id
                  \<longrightarrow> low_consumption_state s' = Some \<lparr>available = False, state = None\<rparr>)
             \<and> (include_high_consumption s
                  \<and> subentry_data s CONF_HIGH_CONSUMPTION_ENTITY = Some entity_id
                  \<longrightarrow> high_consumption_state s' = Some \<lparr>available = False, state = None\<rparr>))
         \<and> (sensor_init friendly_key cls entry subentry = Inr (built, tracked)
               \<longrightarrow> entity_id \<in> set tracked
               \<longrightarrow> (\<forall>e \<in> set tracked. \<exists>x. async_update_entity_state pyfloat hass_states e = Inr x)
               \<longrightarrow> (\<exists>updated. async_update pyfloat hass_states built = Inr updated
                       \<and> sensor_available cls updated = Inr False))"
proof -
  have res: "async_update_entity_state pyfloat hass_states entity_id
          = Inr \<lparr>available = False, state = None\<rparr>"
    using assms by (auto simp: async_update_entity_state_def)
  have absorbed: "async_update pyfloat hass_states s \<noteq> Inl ValueError"
    by (rule async_update_not_ValueError)
  have stored:
    "(include_low_tariff s \<and> entry_data s CONF_LOW_TARIFF_ENTITY = Some entity_id
        \<longrightarrow> low_tariff_state s' = Some \<lparr>available = False, state = None\<rparr>)
     \<and> (include_high_tariff s \<and> entry_data s CONF_HIGH_TARIFF_ENTITY = Some entity_id
        \<longrightarrow> high_tariff_state s' = Some \<lparr>available = False, state = None\<rparr>)
     \<and> (include_low_consumption s
        \<and> subentry_data s CONF_LOW_CONSUMPTION_ENTITY = Some entity_id
        \<longrightarrow> low_consumption_state s' = Some \<lparr>available = False, state = None\<rparr>)
     \<and> (include_high_consumption s
        \<and> subentry_data s CONF_HIGH_CONSUMPTION_ENTITY = Some entity_id
        \<longrightarrow> high_consumption_state s' = Some \<lparr>available = False, state = None\<rparr>)"
    if "async_update pyfloat hass_states s = Inr s'"
    using stored_snapshot [OF that res] .
  have completes:
    "\<exists>updated. async_update pyfloat hass_states built = Inr updated
        \<and> sensor_available cls updated = Inr False"
    if init: "sensor_init friendly_key cls entry subentry = Inr (built, tracked)"
      and mem: "entity_id \<in> set tracked"
      and ok: "\<forall>e \<in> set tracked. \<exists>x. async_update_entity_state pyfloat hass_states e = Inr x"
  proof -
    from update_after_init_succeeds [OF init ok]
    obtain updated where u: "async_update pyfloat hass_states built = Inr updated" by blast
    have "sensor_available cls updated = Inr False"
      using tracked_unavailable(1) [OF init u mem res] by simp
    with u show ?thesis by blast
  qed
  from res absorbed stored completes show ?thesis by (simp only: sum.distinct) blast
qed

theorem unusable_raw_value_is_unavailable_witness:
  "(async_update_entity_state example_float (\<lambda>e. None) ''sensor.low_tariff''
      = Inr \<lparr>available = False, state = None\<rparr>)
   \<and> (async_update_entity_state example_float
        (\<lambda>e. Some \<lparr>State_state = None\<rparr>) ''sensor.low_tariff''
      = Inr \<lparr>available = False, state = None\<rparr>)
   \<and> (async_update_entity_state example_float
        (\<lambda>e. raw_state ''unavailable'') ''sensor.low_tariff''
      = Inr \<lparr>available = False, state = None\<rparr>)
   \<and> (async_update_entity_state example_float (\<lambda>e. raw_state []) ''sensor.low_tariff''
      = Inr \<lparr>available = False, state = None\<rparr>)
   \<and> (async_update_entity_state example_float (\<lambda>e. raw_state ''on'') ''sensor.low_tariff''
      = Inr \<lparr>available = False, state = None\<rparr>)
   \<and> async_update example_float
       (\<lambda>e. if e = ''sensor.low_tariff'' then raw_state ''on''
            else if e = ''sensor.boiler_low'' then raw_state ''10.0'' else None)
       ((example_sensor True False True False)
          \<lparr>low_tariff_state := Some \<lparr>available = True, state = Some (1 / 5)\<rparr>,
           low_consumption_state := Some \<lparr>available = True, state = Some 10\<rparr>\<rparr>)
     = Inr ((example_sensor True False True False)
          \<lparr>low_tariff_state := Some \<lparr>available = False, state = None\<rparr>,
           low_consumption_state := Some \<lparr>available = True, state = Some 10\<rparr>\<rparr>)
   \<and> low_tariff_state
       ((example_sensor True False True False)
          \<lparr>low_tariff_state := Some \<lparr>available = False, state = None\<rparr>,
           low_consumption_state := Some \<lparr>available = True, state = Some 10\<rparr>\<rparr>)
     = Some \<lparr>available = False, state = None\<rparr>"
proof -
  let ?hass = "\<lambda>e. if e = ''sensor.low_tariff'' then raw_state ''on''
                    else if e = ''sensor.boiler_low'' then raw_state ''10.0'' else None"
  let ?s = "(example_sensor True False True False)
              \<lparr>low_tariff_state := Some \<lparr>available = True, state = Some (1 / 5)\<rparr>,
               low_consumption_state := Some \<lparr>available = True, state = Some 10\<rparr>\<rparr>"
  let ?s' = "(example_sensor True False True False)
              \<lparr>low_tariff_state := Some \<lparr>available = False, state = None\<rparr>,
               low_consumption_state := Some \<lparr>available = True, state = Some 10\<rparr>\<rparr>"
  have upd: "async_update example_float ?hass ?s = Inr ?s'"
    by (simp add: async_update_def async_update_entity_state_def dict_get_def bind_err_def
          CONF_LOW_TARIFF_ENTITY_def CONF_HIGH_TARIFF_ENTITY_def
          CONF_LOW_CONSUMPTION_ENTITY_def CONF_HIGH_CONSUMPTION_ENTITY_def
          STATE_UNAVAILABLE_def)
  have tracks: "include_low_tariff ?s
                \<and> entry_data ?s CONF_LOW_TARIFF_ENTITY = Some ''sensor.low_tariff''"
    by (simp add: CONF_LOW_TARIFF_ENTITY_def CONF_HIGH_TARIFF_ENTITY_def)
  have unparsed: "?hass ''sensor.low_tariff'' = None
           \<or> (\<exists>st. ?hass ''sensor.low_tariff'' = Some st \<and>
                 (State_state st = None
                  \<or> State_state st = Some STATE_UNAVAILABLE
                  \<or> (\<exists>raw. State_state st = Some raw \<and> example_float raw = Inl ValueError)))"
    by simp
  have stored: "low_tariff_state ?s' = Some \<lparr>available = False, state = None\<rparr>"
    using unusable_raw_value_is_unavailable
            [where hass_states = "?hass" and entity_id = "''sensor.low_tariff''"
               and pyfloat = example_float and s = "?s" and s' = "?s'", OF unparsed]
          upd tracks
    by blast
  have cases:
    "async_update_entity_state example_float (\<lambda>e. None) ''sensor.low_tariff''
       = Inr \<lparr>available = False, state = None\<rparr>"
    "async_update_entity_state example_float
       (\<lambda>e. Some \<lparr>State_state = None\<rparr>) ''sensor.low_tariff''
       = Inr \<lparr>available = False, state = None\<rparr>"
    "async_update_entity_state example_float
       (\<lambda>e. raw_state ''unavailable'') ''sensor.low_tariff''
       = Inr \<lparr>available = False, state = None\<rparr>"
    "async_update_entity_state example_float (\<lambda>e. raw_state []) ''sensor.low_tariff''
       = Inr \<lparr>available = False, state = None\<rparr>"
    "async_update_entity_state example_float (\<lambda>e. raw_state ''on'') ''sensor.low_tariff''
       = Inr \<lparr>available = False, state = None\<rparr>"
    using
      unusable_raw_value_is_unavailable
        [where hass_states = "\<lambda>e. None" and entity_id = "''sensor.low_tariff''"
           and pyfloat = example_float]
      unusable_raw_value_is_unavailable
        [where hass_states = "\<lambda>e. Some \<lparr>State_state = None\<rparr>"
           and entity_id = "''sensor.low_tariff''" and pyfloat = example_float]
      unusable_raw_value_is_unavailable
        [where hass_states = "\<lambda>e. raw_state ''unavailable''"
           and entity_id = "''sensor.low_tariff''" and pyfloat = example_float]
      unusable_raw_value_is_unavailable
        [where hass_states = "\<lambda>e. raw_state []"
           and entity_id = "''sensor.low_tariff''" and pyfloat = example_float]
      unusable_raw_value_is_unavailable
        [where hass_states = "\<lambda>e. raw_state ''on''"
           and entity_id = "''sensor.low_tariff''" and pyfloat = example_float]
    by (simp_all add: STATE_UNAVAILABLE_def)
  from cases upd stored show ?thesis by simp
qed

section \<open>controller.py: the state accessors\<close>

text \<open>
  C10. The claim is that reading \<^verbatim>\<open>low_tariff_state\<close> (or
  \<^verbatim>\<open>high_tariff_state\<close>) of a Controller returns the stored state. The getter
  calls itself: whatever the number of stack frames left, the read ends in
  RecursionError and never returns a state.
\<close>

theorem controller_state_getter_recurses:
  "Controller_low_tariff_state frames self = Inl RecursionError
   \<and> Controller_high_tariff_state frames self = Inl RecursionError"
  by (induction frames) simp_all

section \<open>The metric evaluator: availability and value\<close>

text \<open>
  C1. For each of the four sensor classes and for any snapshots in the attributes the
  class reads, \<^verbatim>\<open>available\<close> is the conjunction of the snapshots'
  \<open>available\<close> flags: false as soon as one of them is false, true when all are.
\<close>

theorem available_is_conjunction:
  "sensor_available TotalDailyCostSensor
     (s\<lparr>low_tariff_state := Some lt, high_tariff_state := Some ht,
        low_consumption_state := Some lc, high_consumption_state := Some hc\<rparr>)
     = Inr (available lt \<and> available ht \<and> available lc \<and> available hc)
   \<and> sensor_available DailyLowCostSensor
       (s\<lparr>low_tariff_state := Some lt, low_consumption_state := Some lc\<rparr>)
     = Inr (available lt \<and> available lc)
   \<and> sensor_available DailyHighCostSensor
       (s\<lparr>high_tariff_state := Some ht, high_consumption_state := Some hc\<rparr>)
     = Inr (available ht \<and> available hc)
   \<and> sensor_available TotalDailyConsumptionSensor
       (s\<lparr>low_consumption_state := Some lc, high_consumption_state := Some hc\<rparr>)
     = Inr (available lc \<and> available hc)"
  by (simp add: sensor_available_def TotalDailyCostSensor_available_def
        DailyLowCostSensor_available_def DailyHighCostSensor_available_def
        TotalDailyConsumptionSensor_available_def state_available_Some py_and_Inr)

theorem available_is_conjunction_witness:
  "sensor_available TotalDailyConsumptionSensor
     ((example_sensor True True False False)
        \<lparr>low_consumption_state := Some \<lparr>available = False, state = None\<rparr>,
         high_consumption_state := Some \<lparr>available = True, state = Some 5\<rparr>\<rparr>)
     = Inr False
   \<and> sensor_available DailyHighCostSensor
       ((example_sensor True True False False)
          \<lparr>high_tariff_state := Some \<lparr>available = False, state = None\<rparr>,
           high_consumption_state := Some \<lparr>available = True, state = Some 5\<rparr>\<rparr>)
     = Inr False
   \<and> sensor_available DailyLowCostSensor
       ((example_sensor True True False False)
          \<lparr>low_tariff_state := Some \<lparr>available = True, state = Some (1 / 5)\<rparr>,
           low_consumption_state := Some \<lparr>available = False, state = None\<rparr>\<rparr>)
     = Inr False"
  using available_is_conjunction
    [where s = "example_sensor True True False False"
       and lt = "\<lparr>available = True, state = Some (1 / 5)\<rparr>"
       and ht = "\<lparr>available = False, state = None\<rparr>"
       and lc = "\<lparr>available = False, state = None\<rparr>"
       and hc = "\<lparr>available = True, state = Some 5\<rparr>"]
  by simp

text \<open>
  C2. When every snapshot a class reads is available and holds a number, its
  \<^verbatim>\<open>native_value\<close> is the class's formula: price times consumption for the two
  tariff costs, the sum of the two products for the total cost, the sum of the two
  consumptions for the total consumption. \<open>fmul\<close> and \<open>fadd\<close> are the float
  operations, whatever their rounding.
\<close>

theorem native_value_formulas:
  "sensor_native_value fmul fadd DailyLowCostSensor
     (s\<lparr>low_tariff_state := Some \<lparr>available = True, state = Some low_price\<rparr>,
        low_consumption_state := Some \<lparr>available = True, state = Some low_consumption\<rparr>\<rparr>)
     = Inr (fmul low_price low_consumption)
   \<and> sensor_native_value fmul fadd DailyHighCostSensor
       (s\<lparr>high_tariff_state := Some \<lparr>available = True, state = Some high_price\<rparr>,
          high_consumption_state := Some \<lparr>available = True, state = Some high_consumption\<rparr>\<rparr>)
     = Inr (fmul high_price high_consumption)
   \<and> sensor_native_value fmul fadd TotalDailyCostSensor
       (s\<lparr>low_tariff_state := Some \<lparr>available = True, state = Some low_price\<rparr>,
          low_consumption_state := Some \<lparr>available = True, state = Some low_consumption\<rparr>,
          high_tariff_state := Some \<lparr>available = True, state = Some high_price\<rparr>,
          high_consumption_state := Some \<lparr>available = True, state = Some high_consumption\<rparr>\<rparr>)
     = Inr (fadd (fmul low_price low_consumption) (fmul high_price high_consumption))
   \<and> sensor_native_value fmul fadd TotalDailyConsumptionSensor
       (s\<lparr>low_consumption_state := Some \<lparr>available = True, state = Some low_consumption\<rparr>,
          high_consumption_state := Some \<lparr>available = True, state = Some high_consumption\<rparr>\<rparr>)
     = Inr (fadd low_consumption high_consumption)"
  by (simp add: sensor_native_value_def TotalDailyCostSensor_native_value_def
        DailyLowCostSensor_native_value_def DailyHighCostSensor_native_value_def
        TotalDailyConsumptionSensor_native_value_def slot_product_values slot_sum_values
        bind_err_Inr)

theorem native_value_formulas_witness:
  "sensor_native_value (*) (+) DailyLowCostSensor
     ((example_sensor True True True True)
        \<lparr>low_tariff_state := Some \<lparr>available = True, state = Some (1 / 5)\<rparr>,
         low_consumption_state := Some \<lparr>available = True, state = Some 10\<rparr>\<rparr>)
     = Inr 2
   \<and> sensor_native_value (*) (+) DailyHighCostSensor
       ((example_sensor True True True True)
          \<lparr>high_tariff_state := Some \<lparr>available = True, state = Some (3 / 10)\<rparr>,
           high_consumption_state := Some \<lparr>available = True, state = Some 5\<rparr>\<rparr>)
     = Inr (3 / 2)
   \<and> sensor_native_value (*) (+) TotalDailyCostSensor
       ((example_sensor True True True True)
          \<lparr>low_tariff_state := Some \<lparr>available = True, state = Some (1 / 5)\<rparr>,
           low_consumption_state := Some \<lparr>available = True, state = Some 10\<rparr>,
           high_tariff_state := Some \<lparr>available = True, state = Some (3 / 10)\<rparr>,
           high_consumption_state := Some \<lparr>available = True, state = Some 5\<rparr>\<rparr>)
     = Inr (7 / 2)
   \<and> sensor_native_value (*) (+) TotalDailyConsumptionSensor
       ((example_sensor True True True True)
          \<lparr>low_consumption_state := Some \<lparr>available = True, state = Some 10\<rparr>,
           high_consumption_state := Some \<lparr>available = True, state = Some 5\<rparr>\<rparr>)
     = Inr 15"
  using native_value_formulas
    [where fmul = "(*)" and fadd = "(+)" and s = "example_sensor True True True True"
       and low_price = "1 / 5" and low_consumption = 10
       and high_price = "3 / 10" and high_consumption = 5]
  by simp

text \<open>
  C3. The claim is that with a dependency unavailable the evaluation yields
  \<open>(false, none)\<close> without invoking the combination. In the code the two halves are
  separate properties, and \<^verbatim>\<open>native_value\<close> does not test availability: read
  on the low-tariff cost sensor whose tariff snapshot is unavailable, it evaluates
  \<^verbatim>\<open>None * 10.0\<close> and raises TypeError.
\<close>

theorem native_value_unguarded_counterexample:
  "sensor_available DailyLowCostSensor
     ((example_sensor True False True False)
        \<lparr>low_tariff_state := Some \<lparr>available = False, state = None\<rparr>,
         low_consumption_state := Some \<lparr>available = True, state = Some 10\<rparr>\<rparr>)
     = Inr False
   \<and> sensor_native_value (*) (+) DailyLowCostSensor
       ((example_sensor True False True False)
          \<lparr>low_tariff_state := Some \<lparr>available = False, state = None\<rparr>,
           low_consumption_state := Some \<lparr>available = True, state = Some 10\<rparr>\<rparr>)
     = Inl TypeError"
  by (simp add: sensor_available_def DailyLowCostSensor_available_def state_available_Some
        py_and_Inr sensor_native_value_def DailyLowCostSensor_native_value_def
        slot_product_def getattr_state_def bind_err_def py_mul_def)

text \<open>
  C3, as the code has it. Take a sensor of any class as its constructor builds it, after
  an update that completed. If the refresh of one of the identifiers it tracks gave an
  unavailable snapshot, then \<^verbatim>\<open>available\<close> is false, and
  \<^verbatim>\<open>native_value\<close>, if it is read all the same, raises TypeError: an unavailable
  snapshot holds no number, so no number is ever computed from it.
\<close>

theorem unavailable_dependency_blocks_value:
  assumes "sensor_init friendly_key cls entry subentry = Inr (built, tracked)"
    and "async_update pyfloat hass_states built = Inr s"
    and "entity_id \<in> set tracked"
    and "async_update_entity_state pyfloat hass_states entity_id = Inr snapshot"
    and "\<not> available snapshot"
  shows "sensor_available cls s = Inr False
         \<and> sensor_native_value fmul fadd cls s = Inl TypeError"
  using tracked_unavailable [OF assms] by simp

theorem unavailable_dependency_blocks_value_witness:
  "sensor_available TotalDailyCostSensor
     ((example_sensor True True True True)
        \<lparr>low_tariff_state := Some \<lparr>available = True, state = Some (1 / 5)\<rparr>,
         high_tariff_state := Some \<lparr>available = False, state = None\<rparr>,
         low_consumption_state := Some \<lparr>available = True, state = Some 10\<rparr>,
         high_consumption_state := Some \<lparr>available = True, state = Some 5\<rparr>\<rparr>)
     = Inr False
   \<and> sensor_native_value (*) (+) TotalDailyCostSensor
       ((example_sensor True True True True)
          \<lparr>low_tariff_state := Some \<lparr>available = True, state = Some (1 / 5)\<rparr>,
           high_tariff_state := Some \<lparr>available = False, state = None\<rparr>,
           low_consumption_state := Some \<lparr>available = True, state = Some 10\<rparr>,
           high_consumption_state := Some \<lparr>available = True, state = Some 5\<rparr>\<rparr>)
     = Inl TypeError"
proof -
  let ?hass = "\<lambda>e. if e = ''sensor.low_tariff'' then raw_state ''0.20''
                    else if e = ''sensor.high_tariff'' then raw_state ''unavailable''
                    else if e = ''sensor.boiler_low'' then raw_state ''10.0''
                    else if e = ''sensor.boiler_high'' then raw_state ''5.0'' else None"
  have init: "sensor_init ''conf_device_friendly_name'' TotalDailyCostSensor example_entry
                example_subentry
              = Inr (example_sensor True True True True,
                     [''sensor.low_tariff'', ''sensor.high_tariff'',
                      ''sensor.boiler_low'', ''sensor.boiler_high''])"
    by (simp add: sensor_init_def EnergyDeviceMonitorSensor_init_def entities_to_track_def
          dict_get_def bind_err_def CONF_LOW_TARIFF_ENTITY_def CONF_HIGH_TARIFF_ENTITY_def
          CONF_LOW_CONSUMPTION_ENTITY_def CONF_HIGH_CONSUMPTION_ENTITY_def CONF_DEVICE_NAME_def)
  have upd: "async_update example_float ?hass (example_sensor True True True True)
             = Inr ((example_sensor True True True True)
                  \<lparr>low_tariff_state := Some \<lparr>available = True, state = Some (1 / 5)\<rparr>,
                   high_tariff_state := Some \<lparr>available = False, state = None\<rparr>,
                   low_consumption_state := Some \<lparr>available = True, state = Some 10\<rparr>,
                   high_consumption_state := Some \<lparr>available = True, state = Some 5\<rparr>\<rparr>)"
    by (simp add: async_update_def async_update_entity_state_def dict_get_def bind_err_def
          CONF_LOW_TARIFF_ENTITY_def CONF_HIGH_TARIFF_ENTITY_def
          CONF_LOW_CONSUMPTION_ENTITY_def CONF_HIGH_CONSUMPTION_ENTITY_def
          STATE_UNAVAILABLE_def)
  have mem: "''sensor.high_tariff'' \<in> set [''sensor.low_tariff'', ''sensor.high_tariff'',
                      ''sensor.boiler_low'', ''sensor.boiler_high'']"
    by simp
  have un: "async_update_entity_state example_float ?hass ''sensor.high_tariff''
            = Inr \<lparr>available = False, state = None\<rparr>"
    by (simp add: async_update_entity_state_def STATE_UNAVAILABLE_def)
  have na: "\<not> available \<lparr>available = False, state = None :: real option\<rparr>"
    by simp
  show ?thesis
    by (rule unavailable_dependency_blocks_value [OF init upd mem un na])
qed

section \<open>Identifiers the host does not know\<close>

text \<open>
  C6. The claim is that a snapshot of an identifier that was never registered fails with
  an UnknownIdentifier error. The code has no such error: for an identifier the host's
  state machine has no state for, \<^verbatim>\<open>hass.states.get\<close> returns \<^verbatim>\<open>None\<close>
  and the refresh returns the snapshot \<open>available = False\<close>.
\<close>

theorem unknown_identifier_counterexample:
  "async_update_entity_state example_float (\<lambda>e. None) ''sensor.never_registered''
     = Inr \<lparr>available = False, state = None\<rparr>"
  by (simp add: async_update_entity_state_def)

text \<open>
  C6, as the code has it. For every identifier the host has no state for, the refresh
  raises nothing and returns the unavailable snapshot; a sensor that tracks the
  identifier reports \<open>available = False\<close> after its update.
\<close>

theorem unknown_identifier_is_unavailable:
  assumes "hass_states entity_id = None"
  shows "async_update_entity_state pyfloat hass_states entity_id
           = Inr \<lparr>available = False, state = None\<rparr>
         \<and> (sensor_init friendly_key cls entry subentry = Inr (built, tracked)
              \<longrightarrow> entity_id \<in> set tracked
              \<longrightarrow> async_update pyfloat hass_states built = Inr s
              \<longrightarrow> sensor_available cls s = Inr False)"
proof -
  have un: "async_update_entity_state pyfloat hass_states entity_id
              = Inr \<lparr>available = False, state = None\<rparr>"
    using assms by (rule no_state_unavailable)
  have "sensor_available cls s = Inr False"
    if "sensor_init friendly_key cls entry subentry = Inr (built, tracked)"
      and "entity_id \<in> set tracked"
      and "async_update pyfloat hass_states built = Inr s"
    using tracked_unavailable(1) [OF that(1) that(3) that(2) un] by simp
  with un show ?thesis by blast
qed

theorem unknown_identifier_is_unavailable_witness:
  "async_update_entity_state example_float
     (\<lambda>e. if e = ''sensor.boiler_low'' then raw_state ''10.0'' else None) ''sensor.low_tariff''
     = Inr \<lparr>available = False, state = None\<rparr>
   \<and> sensor_available DailyLowCostSensor
       ((example_sensor True False True False)
          \<lparr>low_tariff_state := Some \<lparr>available = False, state = None\<rparr>,
           low_consumption_state := Some \<lparr>available = True, state = Some 10\<rparr>\<rparr>)
     = Inr False"
proof -
  let ?hass = "\<lambda>e. if e = ''sensor.boiler_low'' then raw_state ''10.0'' else None"
  have none: "?hass ''sensor.low_tariff'' = None"
    by simp
  have init: "sensor_init ''conf_device_friendly_name'' DailyLowCostSensor example_entry
                example_subentry
              = Inr (example_sensor True False True False,
                     [''sensor.low_tariff'', ''sensor.boiler_low''])"
    by (simp add: sensor_init_def EnergyDeviceMonitorSensor_init_def entities_to_track_def
          dict_get_def bind_err_def CONF_LOW_TARIFF_ENTITY_def CONF_HIGH_TARIFF_ENTITY_def
          CONF_LOW_CONSUMPTION_ENTITY_def CONF_HIGH_CONSUMPTION_ENTITY_def CONF_DEVICE_NAME_def)
  have upd: "async_update example_float ?hass (example_sensor True False True False)
             = Inr ((example_sensor True False True False)
                  \<lparr>low_tariff_state := Some \<lparr>available = False, state = None\<rparr>,
                   low_consumption_state := Some \<lparr>available = True, state = Some 10\<rparr>\<rparr>)"
    by (simp add: async_update_def async_update_entity_state_def dict_get_def bind_err_def
          CONF_LOW_TARIFF_ENTITY_def CONF_HIGH_TARIFF_ENTITY_def
          CONF_LOW_CONSUMPTION_ENTITY_def CONF_HIGH_CONSUMPTION_ENTITY_def
          STATE_UNAVAILABLE_def)
  have mem: "''sensor.low_tariff'' \<in> set [''sensor.low_tariff'', ''sensor.boiler_low'']"
    by simp
  from unknown_identifier_is_unavailable
      [where hass_states = "?hass" and entity_id = "''sensor.low_tariff''"
         and pyfloat = example_float and friendly_key = "''conf_device_friendly_name''"
         and cls = DailyLowCostSensor and entry = example_entry
         and subentry = example_subentry
         and built = "example_sensor True False True False"
         and tracked = "[''sensor.low_tariff'', ''sensor.boiler_low'']", OF none]
    init upd mem
  show ?thesis by blast
qed

section \<open>Construction and the first update\<close>

text \<open>
  C7. The claim is that constructing a sensor initialises the snapshot of each declared
  dependency to unavailable, so that a metric read in that state reports
  \<open>available = False\<close>. The constructor assigns none of the four snapshot
  attributes: on the object it returns, \<^verbatim>\<open>available\<close> raises AttributeError.
\<close>

theorem construction_sets_no_snapshot_counterexample:
  "sensor_init ''conf_device_friendly_name'' DailyLowCostSensor example_entry example_subentry
     = Inr (example_sensor True False True False, [''sensor.low_tariff'', ''sensor.boiler_low''])
   \<and> low_tariff_state (example_sensor True False True False) = None
   \<and> sensor_available DailyLowCostSensor (example_sensor True False True False)
     = Inl AttributeError"
  by (simp add: sensor_init_def EnergyDeviceMonitorSensor_init_def entities_to_track_def
        dict_get_def bind_err_def CONF_LOW_TARIFF_ENTITY_def CONF_HIGH_TARIFF_ENTITY_def
        CONF_LOW_CONSUMPTION_ENTITY_def CONF_HIGH_CONSUMPTION_ENTITY_def CONF_DEVICE_NAME_def
        sensor_available_def DailyLowCostSensor_available_def state_available_None py_and_Inl)

text \<open>
  C7, as the code has it. The constructed object has no snapshot, and reading
  \<^verbatim>\<open>available\<close> on it raises AttributeError. The snapshots are created by the
  first \<^verbatim>\<open>async_update\<close> (which the platform setup requests with
  \<^verbatim>\<open>update_before_add=True\<close>): when the host has no state for any tracked
  identifier, that update succeeds, stores the unavailable snapshot for each dependency
  the class declared, and the sensor then reports \<open>available = False\<close>.
\<close>

theorem first_update_creates_unavailable_snapshots:
  assumes init: "sensor_init friendly_key cls entry subentry = Inr (built, tracked)"
    and none: "\<forall>entity_id \<in> set tracked. hass_states entity_id = None"
  shows "low_tariff_state built = None \<and> high_tariff_state built = None
         \<and> low_consumption_state built = None \<and> high_consumption_state built = None
         \<and> sensor_available cls built = Inl AttributeError
         \<and> (\<exists>s. async_update pyfloat hass_states built = Inr s
               \<and> low_tariff_state s
                   = (if include_low_tariff built
                      then Some \<lparr>available = False, state = None\<rparr> else None)
               \<and> high_tariff_state s
                   = (if include_high_tariff built
                      then Some \<lparr>available = False, state = None\<rparr> else None)
               \<and> low_consumption_state s
                   = (if include_low_consumption built
                      then Some \<lparr>available = False, state = None\<rparr> else None)
               \<and> high_consumption_state s
                   = (if include_high_consumption built
                      then Some \<lparr>available = False, state = None\<rparr> else None)
               \<and> sensor_available cls s = Inr False)"
proof -
  obtain lc hc lt ht where
    i: "EnergyDeviceMonitorSensor_init friendly_key entry subentry lc hc lt ht
          = Inr (built, tracked)"
    and fl: "(cls = TotalDailyCostSensor \<and> lc \<and> hc \<and> lt \<and> ht) \<or>
             (cls = DailyLowCostSensor \<and> lc \<and> \<not> hc \<and> lt \<and> \<not> ht) \<or>
             (cls = DailyHighCostSensor \<and> \<not> lc \<and> hc \<and> \<not> lt \<and> ht) \<or>
             (cls = TotalDailyConsumptionSensor \<and> lc \<and> hc \<and> \<not> lt \<and> \<not> ht)"
    using init by (cases cls) (auto simp: sensor_init_def)
  note I = init_Inr [OF i]
  note U = first_update [OF i none, of pyfloat]
  have fresh: "sensor_available cls built = Inl AttributeError"
    using fl I
    by (auto simp: sensor_available_def TotalDailyCostSensor_available_def
          DailyLowCostSensor_available_def DailyHighCostSensor_available_def
          TotalDailyConsumptionSensor_available_def state_available_None py_and_Inl)
  let ?s = "built\<lparr>low_tariff_state := if lt then Some \<lparr>available = False, state = None\<rparr> else None,
                   high_tariff_state := if ht then Some \<lparr>available = False, state = None\<rparr> else None,
                   low_consumption_state := if lc then Some \<lparr>available = False, state = None\<rparr> else None,
                   high_consumption_state := if hc then Some \<lparr>available = False, state = None\<rparr> else None\<rparr>"
  have after: "sensor_available cls ?s = Inr False"
    using fl
    by (auto simp: sensor_available_def TotalDailyCostSensor_available_def
          DailyLowCostSensor_available_def DailyHighCostSensor_available_def
          TotalDailyConsumptionSensor_available_def state_available_Some py_and_Inr)
  have slots: "low_tariff_state ?s
                 = (if include_low_tariff built
                    then Some \<lparr>available = False, state = None\<rparr> else None)"
      "high_tariff_state ?s
                 = (if include_high_tariff built
                    then Some \<lparr>available = False, state = None\<rparr> else None)"
      "low_consumption_state ?s
                 = (if include_low_consumption built
                    then Some \<lparr>available = False, state = None\<rparr> else None)"
      "high_consumption_state ?s
                 = (if include_high_consumption built
                    then Some \<lparr>available = False, state = None\<rparr> else None)"
    using I by simp_all
  from U after slots have
    "\<exists>s. async_update pyfloat hass_states built = Inr s
       \<and> low_tariff_state s
           = (if include_low_tariff built
              then Some \<lparr>available = False, state = None\<rparr> else None)
       \<and> high_tariff_state s
           = (if include_high_tariff built
              then Some \<lparr>available = False, state = None\<rparr> else None)
       \<and> low_consumption_state s
           = (if include_low_consumption built
              then Some \<lparr>available = False, state = None\<rparr> else None)
       \<and> high_consumption_state s
           = (if include_high_consumption built
              then Some \<lparr>available = False, state = None\<rparr> else None)
       \<and> sensor_available cls s = Inr False"
    by blast
  with I fresh show ?thesis by blast
qed

theorem first_update_creates_unavailable_snapshots_witness:
  "sensor_available TotalDailyConsumptionSensor (example_sensor True True False False)
     = Inl AttributeError
   \<and> (\<exists>s. async_update example_float (\<lambda>e. None) (example_sensor True True False False) = Inr s
         \<and> low_consumption_state s = Some \<lparr>available = False, state = None\<rparr>
         \<and> high_consumption_state s = Some \<lparr>available = False, state = None\<rparr>
         \<and> sensor_available TotalDailyConsumptionSensor s = Inr False)"
proof -
  have init: "sensor_init ''conf_device_friendly_name'' TotalDailyConsumptionSensor
                example_entry example_subentry
              = Inr (example_sensor True True False False,
                     [''sensor.boiler_low'', ''sensor.boiler_high''])"
    by (simp add: sensor_init_def EnergyDeviceMonitorSensor_init_def entities_to_track_def
          dict_get_def bind_err_def CONF_LOW_TARIFF_ENTITY_def CONF_HIGH_TARIFF_ENTITY_def
          CONF_LOW_CONSUMPTION_ENTITY_def CONF_HIGH_CONSUMPTION_ENTITY_def CONF_DEVICE_NAME_def)
  have none: "\<forall>entity_id \<in> set [''sensor.boiler_low'', ''sensor.boiler_high''].
                (\<lambda>e. None :: State option) entity_id = None"
    by simp
  from first_update_creates_unavailable_snapshots [OF init none, of example_float]
  show ?thesis by auto
qed

section \<open>Repeated evaluation\<close>

text \<open>
  C8. The two properties \<^verbatim>\<open>available\<close> and \<^verbatim>\<open>native_value\<close> are getters
  that assign nothing: each is a function of the object's attributes, and a read
  leaves the object as it was. What an evaluation can change is done by the refresh
  that precedes the reads (\<^verbatim>\<open>_handle_state_change\<close> asks the host for a forced
  refresh, which runs \<^verbatim>\<open>async_update\<close> and then reads the two properties).
  With no change of the host's states between two evaluations, the second refresh
  succeeds and leaves every snapshot as the first one set it, and both properties
  answer as before.
\<close>

theorem repeated_evaluation_is_identical:
  assumes "async_update pyfloat hass_states s = Inr s1"
  shows "\<exists>s2. async_update pyfloat hass_states s1 = Inr s2 \<and> s2 = s1
              \<and> sensor_available cls s2 = sensor_available cls s1
              \<and> sensor_native_value fmul fadd cls s2 = sensor_native_value fmul fadd cls s1"
  using async_update_idem [OF assms] by simp

theorem repeated_evaluation_is_identical_witness:
  "\<exists>s2. async_update example_float
           (\<lambda>e. if e = ''sensor.boiler_low'' then raw_state ''10.0''
                else if e = ''sensor.boiler_high'' then raw_state ''5.0'' else None)
           ((example_sensor True True False False)
              \<lparr>low_consumption_state := Some \<lparr>available = True, state = Some 10\<rparr>,
               high_consumption_state := Some \<lparr>available = True, state = Some 5\<rparr>\<rparr>)
         = Inr s2
       \<and> s2 = (example_sensor True True False False)
              \<lparr>low_consumption_state := Some \<lparr>available = True, state = Some 10\<rparr>,
               high_consumption_state := Some \<lparr>available = True, state = Some 5\<rparr>\<rparr>
       \<and> sensor_available TotalDailyConsumptionSensor s2 = Inr True
       \<and> sensor_native_value (*) (+) TotalDailyConsumptionSensor s2 = Inr 15"
proof -
  let ?hass = "\<lambda>e. if e = ''sensor.boiler_low'' then raw_state ''10.0''
                    else if e = ''sensor.boiler_high'' then raw_state ''5.0'' else None"
  let ?s1 = "(example_sensor True True False False)
              \<lparr>low_consumption_state := Some \<lparr>available = True, state = Some 10\<rparr>,
               high_consumption_state := Some \<lparr>available = True, state = Some 5\<rparr>\<rparr>"
  have upd: "async_update example_float ?hass (example_sensor True True False False) = Inr ?s1"
    by (simp add: async_update_def async_update_entity_state_def dict_get_def bind_err_def
          CONF_LOW_TARIFF_ENTITY_def CONF_HIGH_TARIFF_ENTITY_def
          CONF_LOW_CONSUMPTION_ENTITY_def CONF_HIGH_CONSUMPTION_ENTITY_def
          STATE_UNAVAILABLE_def)
  have av: "sensor_available TotalDailyConsumptionSensor ?s1 = Inr True"
    by (simp add: sensor_available_def TotalDailyConsumptionSensor_available_def
          state_available_Some py_and_Inr)
  have nv: "sensor_native_value (*) (+) TotalDailyConsumptionSensor ?s1 = Inr 15"
    by (simp add: sensor_native_value_def TotalDailyConsumptionSensor_native_value_def
          getattr_state_def bind_err_def py_add_def)
  from repeated_evaluation_is_identical
         [OF upd, of TotalDailyConsumptionSensor "(*)" "(+)"] av nv
  show ?thesis by auto
qed

section \<open>The daily boundary\<close>

text \<open>
  C9. The claim is that the boundary function is exposed for the total-consumption
  metrics. In the code it is the property \<^verbatim>\<open>last_reset\<close>, and only
  \<^verbatim>\<open>TotalDailyCostSensor\<close> defines it (the class whose state class is
  \<^verbatim>\<open>TOTAL\<close>); \<^verbatim>\<open>TotalDailyConsumptionSensor\<close> defines none.
\<close>

theorem last_reset_not_on_total_consumption_counterexample:
  "sensor_last_reset
     (\<lambda>key. if key = ''Europe/Amsterdam'' then Inr (1 :: nat) else Inl ZoneInfoNotFoundError)
     (\<lambda>tz. \<lparr>datetime_date = \<lparr>year = 2025, month = 6, day = 14\<rparr>,
            datetime_time = \<lparr>hour = 13, minute = 45, second = 10, microsecond = 250\<rparr>,
            tzinfo = Some tz\<rparr>)
     ''Europe/Amsterdam'' TotalDailyConsumptionSensor (example_sensor True True False False)
   = None"
  by (simp add: sensor_last_reset_def)

text \<open>
  C9, as the code has it. For every clock reading and every time zone the zone database
  knows, \<^verbatim>\<open>last_reset\<close> of the total cost sensor is 00:00:00.000000 on the
  calendar date the clock shows in that zone, carrying that zone. It is defined for the
  total cost sensor only, and it reads no snapshot: its answer is the same on every
  sensor state, and no value is subtracted or rolled over.
\<close>

theorem last_reset_is_local_midnight:
  assumes "ZoneInfo time_zone = Inr tz"
  shows "sensor_last_reset ZoneInfo now time_zone TotalDailyCostSensor s
           = Some (Inr \<lparr>datetime_date = datetime_date (now tz),
                         datetime_time = \<lparr>hour = 0, minute = 0, second = 0, microsecond = 0\<rparr>,
                         tzinfo = Some tz\<rparr>)
         \<and> sensor_last_reset ZoneInfo now time_zone TotalDailyCostSensor s'
           = sensor_last_reset ZoneInfo now time_zone TotalDailyCostSensor s
         \<and> sensor_last_reset ZoneInfo now time_zone TotalDailyConsumptionSensor s = None
         \<and> sensor_last_reset ZoneInfo now time_zone DailyLowCostSensor s = None
         \<and> sensor_last_reset ZoneInfo now time_zone DailyHighCostSensor s = None"
  using assms
  by (simp add: sensor_last_reset_def TotalDailyCostSensor_last_reset_def bind_err_Inr
        datetime_combine_def time_min_def)

theorem last_reset_is_local_midnight_witness:
  "sensor_last_reset
     (\<lambda>key. if key = ''Europe/Amsterdam'' then Inr (1 :: nat) else Inl ZoneInfoNotFoundError)
     (\<lambda>tz. \<lparr>datetime_date = \<lparr>year = 2025, month = 6, day = 14\<rparr>,
            datetime_time = \<lparr>hour = 13, minute = 45, second = 10, microsecond = 250\<rparr>,
            tzinfo = Some tz\<rparr>)
     ''Europe/Amsterdam'' TotalDailyCostSensor (example_sensor True True True True)
   = Some (Inr \<lparr>datetime_date = \<lparr>year = 2025, month = 6, day = 14\<rparr>,
                datetime_time = \<lparr>hour = 0, minute = 0, second = 0, microsecond = 0\<rparr>,
                tzinfo = Some 1\<rparr>)"
  using last_reset_is_local_midnight
    [where ZoneInfo = "\<lambda>key. if key = ''Europe/Amsterdam'' then Inr (1 :: nat)
                             else Inl ZoneInfoNotFoundError"
       and time_zone = "''Europe/Amsterdam''" and tz = 1
       and now = "\<lambda>tz. \<lparr>datetime_date = \<lparr>year = 2025, month = 6, day = 14\<rparr>,
            datetime_time = \<lparr>hour = 13, minute = 45, second = 10, microsecond = 250\<rparr>,
            tzinfo = Some tz\<rparr>"
       and s = "example_sensor True True True True"
       and s' = "example_sensor True True True True"]
  by simp

end
